theory Spec2Isabelle
  imports Main "HOL-Library.Word"
begin

section \<open>Package token: the token store\<close>

subsection \<open>JSON documents, as encoding/json reads and writes them\<close>

text \<open>
  The bytes of \<open>tokens.json\<close> and of an HTTP response body are represented by what
  \<open>encoding/json\<close> makes of them: either they are not a JSON text at all, or they denote
  a JSON value. Object members keep their order and their duplicates, since
  \<open>json.Unmarshal\<close> assigns them one after the other. A number literal that is not a
  plain integer (it has a fraction or an exponent) is \<open>JNonInt\<close>: storing it into a Go
  \<open>int\<close> fails whatever its value. A string is the sequence of bytes that its
  literal stands for once the escapes are resolved; both \<open>json.Marshal\<close> and
  \<open>json.Unmarshal\<close> deliver it coerced to valid UTF-8.
\<close>

datatype json =
    JNull
  | JBool bool
  | JInt int
  | JNonInt
  | JString string
  | JArray "json list"
  | JObject "(string \<times> json) list"

datatype payload = NotJSON | JSON json

datatype json_error = SyntaxError | UnmarshalTypeError

text \<open>The errors the package returns, one constructor for each message of the source.\<close>

datatype error =
    ReadingTokens            \<comment> \<open>There was a problem reading tokens\<close>
  | DecodingTokens json_error \<comment> \<open>There was a problem decoding tokens\<close>
  | WritingTokens            \<comment> \<open>There was a problem writing tokens file\<close>
  | RequestFailed            \<comment> \<open>the error of \<open>http.DefaultClient.Do\<close>\<close>
  | BodyUnreadable           \<comment> \<open>the error of \<open>ioutil.ReadAll\<close>\<close>
  | Undecodable json_error   \<comment> \<open>the error of \<open>json.Unmarshal\<close>, returned as it is\<close>
  | TokenExpired             \<comment> \<open>The device token expired, please reinitialize the login\<close>
  | TokenDenied              \<comment> \<open>The device token got denied, please reinitialize the login\<close>
  | UnexpectedResponse payload \<comment> \<open>Unexpected response from authorization server: body\<close>
  | External string          \<comment> \<open>an error of a function that is not part of this package\<close>

record AuthError =
  Error :: string
  ErrorDescription :: string

text \<open>Go's \<open>int\<close> is taken to be 64 bits wide.\<close>

record TokenSpec =
  AccessToken :: string
  RefreshToken :: string
  IDToken :: string
  TokenType :: string
  ExpiresIn :: "64 word"

definition zero_AuthError :: AuthError where
  "zero_AuthError = \<lparr>Error = [], ErrorDescription = []\<rparr>"

definition zero_TokenSpec :: TokenSpec where
  "zero_TokenSpec =
     \<lparr>AccessToken = [], RefreshToken = [], IDToken = [], TokenType = [], ExpiresIn = 0\<rparr>"

subsection \<open>Strings as UTF-8\<close>

text \<open>
  A Go string is any sequence of bytes. \<open>rune_size\<close> is the width that
  \<open>utf8.DecodeRuneInString\<close> reports for the encoding at the head of a string, with 0
  where Go reports \<open>RuneError\<close> of width 1 (a byte that begins no valid encoding: a
  stray continuation byte, an overlong form, a surrogate, a value beyond U+10FFFF, or an
  encoding cut short).
\<close>

definition continuation :: "char \<Rightarrow> bool" where
  "continuation c = (128 \<le> (of_char c :: nat) \<and> (of_char c :: nat) < 192)"

definition second_ok :: "nat \<Rightarrow> char \<Rightarrow> bool" where
  "second_ok b c =
     (let x = (of_char c :: nat) in
      if b = 224 then 160 \<le> x \<and> x < 192
      else if b = 237 then 128 \<le> x \<and> x < 160
      else if b = 240 then 144 \<le> x \<and> x < 192
      else if b = 244 then 128 \<le> x \<and> x < 144
      else 128 \<le> x \<and> x < 192)"

fun rune_size :: "string \<Rightarrow> nat" where
  "rune_size [] = 0"
| "rune_size (c # cs) =
     (let b = (of_char c :: nat) in
      if b < 128 then 1
      else if 194 \<le> b \<and> b < 224 then
        (case cs of c1 # _ \<Rightarrow> if continuation c1 then 2 else 0 | _ \<Rightarrow> 0)
      else if 224 \<le> b \<and> b < 240 then
        (case cs of
           c1 # c2 # _ \<Rightarrow> if second_ok b c1 \<and> continuation c2 then 3 else 0
         | _ \<Rightarrow> 0)
      else if 240 \<le> b \<and> b < 245 then
        (case cs of
           c1 # c2 # c3 # _ \<Rightarrow>
             if second_ok b c1 \<and> continuation c2 \<and> continuation c3 then 4 else 0
         | _ \<Rightarrow> 0)
      else 0)"

text \<open>The UTF-8 encoding of U+FFFD, the replacement character.\<close>

definition RuneError :: string where
  "RuneError = [CHR 0xEF, CHR 0xBF, CHR 0xBD]"

text \<open>
  What \<open>encoding/json\<close> makes of a string, when it writes one (\<open>\ufffd\<close> for every
  byte that begins no valid encoding) and when it reads one: each such byte becomes the
  replacement character, every valid encoding stays.
\<close>

function coerce_utf8 :: "string \<Rightarrow> string" where
  "coerce_utf8 s =
     (if s = [] then []
      else (let n = rune_size s in
            if n = 0 then RuneError @ coerce_utf8 (tl s)
            else take n s @ coerce_utf8 (drop n s)))"
  by pat_completeness auto
termination
  by (relation "measure length") auto

declare coerce_utf8.simps [simp del]

text \<open>\<open>utf8.ValidString\<close>: the string is a sequence of valid encodings.\<close>

function ValidString :: "string \<Rightarrow> bool" where
  "ValidString s =
     (if s = [] then True
      else (let n = rune_size s in if n = 0 then False else ValidString (drop n s)))"
  by pat_completeness auto
termination
  by (relation "measure length") auto

declare ValidString.simps [simp del]

subsection \<open>Decoding into a struct\<close>

text \<open>
  A member's key selects the struct field whose tag equals it, or else the first field whose
  tag equals it under case folding: the ASCII letters without their case, and the two
  letters beyond ASCII that fold onto ASCII ones, the Kelvin sign U+212A onto \<open>k\<close> and
  the long s U+017F onto \<open>s\<close> (in UTF-8 the bytes E2 84 AA and C5 BF).
\<close>

definition to_lower :: "char \<Rightarrow> char" where
  "to_lower c =
     (let n = (of_char c :: nat) in if 65 \<le> n \<and> n \<le> 90 then char_of (n + 32) else c)"

fun foldName :: "string \<Rightarrow> string" where
  "foldName [] = []"
| "foldName (c # cs) =
     (if c = CHR 0xE2 \<and> take 2 cs = [CHR 0x84, CHR 0xAA] then CHR ''k'' # foldName (drop 2 cs)
      else if c = CHR 0xC5 \<and> take 1 cs = [CHR 0xBF] then CHR ''s'' # foldName (drop 1 cs)
      else to_lower c # foldName cs)"

definition equalFold :: "string \<Rightarrow> string \<Rightarrow> bool" where
  "equalFold a b = (foldName a = foldName b)"

definition match_field :: "string list \<Rightarrow> string \<Rightarrow> string option" where
  "match_field tags key =
     (if key \<in> set tags then Some key else find (\<lambda>t. equalFold t key) tags)"

text \<open>
  Storing a JSON value into a field of type \<open>string\<close> or \<open>int\<close>: \<open>null\<close> leaves the
  field as it is, a string arrives coerced to valid UTF-8, a value of the wrong kind (or an
  integer out of range) is an \<open>UnmarshalTypeError\<close>.
\<close>

fun into_string :: "json \<Rightarrow> string \<Rightarrow> json_error + string" where
  "into_string JNull cur = Inr cur"
| "into_string (JString s) cur = Inr (coerce_utf8 s)"
| "into_string _ cur = Inl UnmarshalTypeError"

fun into_int :: "json \<Rightarrow> 64 word \<Rightarrow> json_error + 64 word" where
  "into_int JNull cur = Inr cur"
| "into_int (JInt n) cur =
     (if - (2 ^ 63) \<le> n \<and> n < 2 ^ 63 then Inr (word_of_int n) else Inl UnmarshalTypeError)"
| "into_int _ cur = Inl UnmarshalTypeError"

text \<open>The decoder remembers the first error only, and goes on with the next member.\<close>

definition saveError :: "json_error option \<Rightarrow> json_error \<Rightarrow> json_error option" where
  "saveError saved e = (case saved of None \<Rightarrow> Some e | Some e0 \<Rightarrow> Some e0)"

definition TokenSpec_tags :: "string list" where
  "TokenSpec_tags =
     [''access_token'', ''refresh_token'', ''id_token'', ''token_type'', ''expires_in'']"

definition TokenSpec_member ::
  "TokenSpec \<times> json_error option \<Rightarrow> string \<times> json \<Rightarrow> TokenSpec \<times> json_error option" where
  "TokenSpec_member st kv =
     (let t = fst st; saved = snd st; v = snd kv in
      case match_field TokenSpec_tags (fst kv) of
        None \<Rightarrow> st
      | Some tag \<Rightarrow>
          if tag = ''access_token'' then
            (case into_string v (AccessToken t) of
               Inl e \<Rightarrow> (t, saveError saved e)
             | Inr s \<Rightarrow> (t\<lparr>AccessToken := s\<rparr>, saved))
          else if tag = ''refresh_token'' then
            (case into_string v (RefreshToken t) of
               Inl e \<Rightarrow> (t, saveError saved e)
             | Inr s \<Rightarrow> (t\<lparr>RefreshToken := s\<rparr>, saved))
          else if tag = ''id_token'' then
            (case into_string v (IDToken t) of
               Inl e \<Rightarrow> (t, saveError saved e)
             | Inr s \<Rightarrow> (t\<lparr>IDToken := s\<rparr>, saved))
          else if tag = ''token_type'' then
            (case into_string v (TokenType t) of
               Inl e \<Rightarrow> (t, saveError saved e)
             | Inr s \<Rightarrow> (t\<lparr>TokenType := s\<rparr>, saved))
          else
            (case into_int v (ExpiresIn t) of
               Inl e \<Rightarrow> (t, saveError saved e)
             | Inr n \<Rightarrow> (t\<lparr>ExpiresIn := n\<rparr>, saved)))"

definition AuthError_tags :: "string list" where
  "AuthError_tags = [''error'', ''error_description'']"

definition AuthError_member ::
  "AuthError \<times> json_error option \<Rightarrow> string \<times> json \<Rightarrow> AuthError \<times> json_error option" where
  "AuthError_member st kv =
     (let a = fst st; saved = snd st; v = snd kv in
      case match_field AuthError_tags (fst kv) of
        None \<Rightarrow> st
      | Some tag \<Rightarrow>
          if tag = ''error'' then
            (case into_string v (Error a) of
               Inl e \<Rightarrow> (a, saveError saved e)
             | Inr s \<Rightarrow> (a\<lparr>Error := s\<rparr>, saved))
          else
            (case into_string v (ErrorDescription a) of
               Inl e \<Rightarrow> (a, saveError saved e)
             | Inr s \<Rightarrow> (a\<lparr>ErrorDescription := s\<rparr>, saved)))"

text \<open>
  \<open>json.Unmarshal\<close> into a zero struct, as every call of the package does
  (\<open>var x T; json.Unmarshal(body, &x)\<close>). The callers drop the struct when an error is
  returned, so an error carries no struct.
\<close>

definition finish :: "'a \<times> json_error option \<Rightarrow> json_error + 'a" where
  "finish st = (case snd st of None \<Rightarrow> Inr (fst st) | Some e \<Rightarrow> Inl e)"

fun Unmarshal_TokenSpec :: "payload \<Rightarrow> json_error + TokenSpec" where
  "Unmarshal_TokenSpec NotJSON = Inl SyntaxError"
| "Unmarshal_TokenSpec (JSON JNull) = Inr zero_TokenSpec"
| "Unmarshal_TokenSpec (JSON (JObject kvs)) =
     finish (foldl TokenSpec_member (zero_TokenSpec, None) kvs)"
| "Unmarshal_TokenSpec (JSON _) = Inl UnmarshalTypeError"

fun Unmarshal_AuthError :: "payload \<Rightarrow> json_error + AuthError" where
  "Unmarshal_AuthError NotJSON = Inl SyntaxError"
| "Unmarshal_AuthError (JSON JNull) = Inr zero_AuthError"
| "Unmarshal_AuthError (JSON (JObject kvs)) =
     finish (foldl AuthError_member (zero_AuthError, None) kvs)"
| "Unmarshal_AuthError (JSON _) = Inl UnmarshalTypeError"

text \<open>
  \<open>json.Marshal\<close> of a \<open>TokenSpec\<close>: the five members in the order of the fields, the
  strings coerced to valid UTF-8. It
  cannot fail on a struct of strings and an \<open>int\<close>, so the error branch of \<open>SaveToken\<close>
  after it is never taken.
\<close>

definition Marshal_TokenSpec :: "TokenSpec \<Rightarrow> json" where
  "Marshal_TokenSpec t =
     JObject [(''access_token'', JString (coerce_utf8 (AccessToken t))),
              (''refresh_token'', JString (coerce_utf8 (RefreshToken t))),
              (''id_token'', JString (coerce_utf8 (IDToken t))),
              (''token_type'', JString (coerce_utf8 (TokenType t))),
              (''expires_in'', JInt (sint (ExpiresIn t)))]"

subsection \<open>The token file\<close>

text \<open>
  The state of the file system as \<open>SaveToken\<close>, \<open>GetAccessToken\<close> and
  \<open>GetRefreshToken\<close> see it: what \<open>ioutil.ReadFile\<close> returns for \<open>tokens.json\<close>
  (\<open>None\<close> when it fails, the content otherwise), and whether \<open>ioutil.WriteFile\<close> on
  it fails.
\<close>

record filesystem =
  tokens_json :: "payload option"
  write_fails :: bool

definition SaveToken :: "TokenSpec \<Rightarrow> filesystem \<Rightarrow> error option \<times> filesystem" where
  "SaveToken token fs =
     (let tokenBytes = JSON (Marshal_TokenSpec token) in
      if write_fails fs then (Some WritingTokens, fs)
      else (None, fs\<lparr>tokens_json := Some tokenBytes\<rparr>))"

definition GetAccessToken :: "filesystem \<Rightarrow> error + string" where
  "GetAccessToken fs =
     (case tokens_json fs of
        None \<Rightarrow> Inl ReadingTokens
      | Some tokens \<Rightarrow>
          (case Unmarshal_TokenSpec tokens of
             Inl e \<Rightarrow> Inl (DecodingTokens e)
           | Inr token \<Rightarrow> Inr (AccessToken token)))"

definition GetRefreshToken :: "filesystem \<Rightarrow> error + string" where
  "GetRefreshToken fs =
     (case tokens_json fs of
        None \<Rightarrow> Inl ReadingTokens
      | Some tokens \<Rightarrow>
          (case Unmarshal_TokenSpec tokens of
             Inl e \<Rightarrow> Inl (DecodingTokens e)
           | Inr token \<Rightarrow> Inr (RefreshToken token)))"

subsection \<open>Refreshing the token\<close>

text \<open>
  The form that \<open>RefreshToken\<close> posts to the token endpoint, and what comes back: the
  request fails, the body cannot be read, or there is a status code and a body.
\<close>

record refresh_request =
  grant_type :: string
  client_id :: string
  refresh_token :: string

datatype http_result = DoFailed | ReadAllFailed | Response int payload

definition clientID :: string where
  "clientID = ''R569dcCOUErjw1xVZOzqc7OUCiGTYNqN''"

text \<open>
  The function \<open>RefreshToken\<close> of the source (the name of the field of \<open>TokenSpec\<close> is
  taken). A client error whose \<open>error\<close> is none of the three known ones leaves the
  \<open>if\<close> chain and reaches the final \<open>return nil\<close>.
\<close>

definition RefreshToken_func ::
  "(refresh_request \<Rightarrow> http_result) \<Rightarrow> filesystem \<Rightarrow> error option \<times> filesystem" where
  "RefreshToken_func post fs =
     (case GetRefreshToken fs of
        Inl err \<Rightarrow> (Some err, fs)
      | Inr token \<Rightarrow>
          (case post \<lparr>grant_type = ''refresh_token'', client_id = clientID,
                      refresh_token = token\<rparr> of
             DoFailed \<Rightarrow> (Some RequestFailed, fs)
           | ReadAllFailed \<Rightarrow> (Some BodyUnreadable, fs)
           | Response StatusCode body \<Rightarrow>
               if StatusCode > 400 \<and> StatusCode < 500 then
                 (case Unmarshal_AuthError body of
                    Inl e \<Rightarrow> (Some (Undecodable e), fs)
                  | Inr jsonResponseBody \<Rightarrow>
                      if Error jsonResponseBody = ''expired_token''
                         \<or> Error jsonResponseBody = ''invalid_grand''
                      then (Some TokenExpired, fs)
                      else if Error jsonResponseBody = ''access_denied''
                      then (Some TokenDenied, fs)
                      else (None, fs))
               else if StatusCode \<ge> 200 \<and> StatusCode \<le> 300 then
                 (case Unmarshal_TokenSpec body of
                    Inl e \<Rightarrow> (Some (Undecodable e), fs)
                  | Inr jsonResponseBody \<Rightarrow>
                      SaveToken (jsonResponseBody\<lparr>RefreshToken := token\<rparr>) fs)
               else (Some (UnexpectedResponse body), fs)))"

section \<open>Package loophole: the tunnel supervisor\<close>

subsection \<open>Data\<close>

text \<open>
  Modelled from the spec: the types \<open>Endpoint\<close> and \<open>Config\<close> (package \<open>models\<close>)
  and \<open>SiteSpecification\<close> (package \<open>client\<close>) are declared outside the files at hand.
  The spec gives an endpoint as a host and a port, a configuration as the local endpoint,
  the gateway endpoint, the identity file, the requested site identifier and the flag
  \<open>qr\<close>, and a site specification as a site identifier and an integer result code. The
  fields are the ones the code reads; the ports are \<open>int32\<close>. The fields \<open>Host\<close>,
  \<open>Port\<close> and \<open>SiteID\<close> of \<open>Config\<close> carry a suffix, since \<open>Endpoint\<close> and
  \<open>SiteSpecification\<close> have fields of these names.
\<close>

record Endpoint =
  Host :: string
  Port :: "32 word"

record Config =
  Host_cfg :: string
  Port_cfg :: "32 word"
  IdentityFile :: string
  GatewayEndpoint :: Endpoint
  SiteID_cfg :: string
  QR :: bool

record SiteSpecification =
  SiteID :: string
  ResultCode :: int

definition zero_SiteSpecification :: SiteSpecification where
  "zero_SiteSpecification = \<lparr>SiteID = [], ResultCode = 0\<rparr>"

definition apiURL :: string where
  "apiURL = ''https://api.loophole.cloud''"

definition remoteEndpoint :: Endpoint where
  "remoteEndpoint = \<lparr>Host = ''127.0.0.1'', Port = 80\<rparr>"

text \<open>The \<open>autocert.Manager\<close> literal: the arguments of \<open>HostWhitelist\<close>, the directory
  of \<open>DirCache\<close>, and the e-mail address.\<close>

record Manager =
  HostPolicy :: "string list"
  Cache :: string
  Email :: string

text \<open>Decimal numerals, for the \<open>%d\<close> of \<open>fmt.Sprintf\<close>.\<close>

function dec_nat :: "nat \<Rightarrow> string" where
  "dec_nat n =
     (if n < 10 then [char_of (48 + n)] else dec_nat (n div 10) @ [char_of (48 + n mod 10)])"
  by pat_completeness auto
termination
  by (relation "measure (\<lambda>n. n)") auto

definition dec :: "int \<Rightarrow> string" where
  "dec i = (if i < 0 then CHR ''-'' # dec_nat (nat (- i)) else dec_nat (nat i))"

subsection \<open>What the process does, and what the world answers\<close>

text \<open>
  Every call that leaves the process and every line it writes is an event of the trace.
  The spinner, the colours and the messages of level debug leave no event. A listener,
  an SSH client or a connection is named by a number: the index of the call that made it.
\<close>

datatype event =
    Info string                     \<comment> \<open>\<open>log.Info().Msg\<close>\<close>
  | ErrorLog string                 \<comment> \<open>\<open>log.Error().Msg\<close>\<close>
  | Fatal string                    \<comment> \<open>\<open>log.Fatal().Msg\<close>: the process exits with status 1\<close>
  | Print string                    \<comment> \<open>\<open>fmt.Fprint\<close> on the standard output\<close>
  | Println                         \<comment> \<open>\<open>fmt.Println()\<close>\<close>
  | QRCode string                   \<comment> \<open>\<open>qrterminal.GenerateWithConfig\<close>, with its content\<close>
  | Sleep nat                       \<comment> \<open>\<open>time.Sleep\<close>, in seconds\<close>
  | Call_parsePublicKey string      \<comment> \<open>the identity file\<close>
  | Call_RegisterSite string string \<comment> \<open>the API and the requested site identifier\<close>
  | Call_RefreshToken
  | Call_ssh_Dial Endpoint string   \<comment> \<open>the gateway and the user name\<close>
  | New_Manager Manager             \<comment> \<open>the certificate manager\<close>
  | New_ReverseProxy string Endpoint \<comment> \<open>the scheme and the host of the upstream\<close>
  | Call_net_Listen string          \<comment> \<open>the loopback listener of the TLS server\<close>
  | Go_ServeTLS nat                 \<comment> \<open>the task of the TLS server, on a local listener\<close>
  | Call_ssh_Listen nat Endpoint    \<comment> \<open>the SSH client and the remote endpoint\<close>
  | Close_Listener nat              \<comment> \<open>\<open>Close\<close> of a remote listener\<close>
  | Call_net_Dial Endpoint          \<comment> \<open>the dial into the local proxy\<close>
  | Go_handleClient nat nat         \<comment> \<open>the remote stream and the local connection\<close>

text \<open>
  The answers of the world. \<open>parsePublicKey\<close> is the function of the source, taken by
  its result (it reads the key file, and asks for the passphrase on the terminal).
  \<open>RegisterSite\<close> and \<open>GetLocalStorageDir\<close> belong to packages outside the files at
  hand. \<open>Sprintf_verbs\<close> is what \<open>fmt.Sprintf\<close> returns for a format that holds a
  \<open>%\<close> and has no operands. The calls that may answer differently each time are indexed
  by their number.
\<close>

record environment =
  parsePublicKey :: "string \<Rightarrow> error + string"
  RegisterSite :: "nat \<Rightarrow> SiteSpecification \<times> error option"
  token_endpoint :: "refresh_request \<Rightarrow> http_result"
  ssh_Dial :: "nat \<Rightarrow> error option"
  net_Listen :: "nat \<Rightarrow> error + nat"
  ssh_Listen :: "nat \<Rightarrow> error option"
  net_Dial :: "nat \<Rightarrow> error option"
  GetLocalStorageDir :: "string \<Rightarrow> string"
  Sprintf_verbs :: "string \<Rightarrow> string"

text \<open>
  The state of the process: the token file, the key behind the pointers \<open>publicKey\<close> and
  \<open>publicKeyAuthMethod\<close> (\<open>None\<close> for \<open>nil\<close>), the global flag, how many calls of each
  kind were made, and the trace.
\<close>

record process =
  files :: filesystem
  publicKey :: "string option"
  successfulConnectionOccured :: bool
  registered :: nat
  dialed :: nat
  listened :: nat
  remote_listened :: nat
  local_dialed :: nat
  trace :: "event list"

definition emit :: "event list \<Rightarrow> process \<Rightarrow> process" where
  "emit es p = p\<lparr>trace := trace p @ es\<rparr>"

text \<open>A function either ends the process (\<open>log.Fatal\<close> exits with status 1) or returns.\<close>

datatype 'a result = Exit int | Return 'a

definition fatal :: "string \<Rightarrow> process \<Rightarrow> 'a result \<times> process" where
  "fatal msg p = (Exit 1, emit [Fatal msg] p)"

definition bind ::
  "'a result \<times> process \<Rightarrow> ('a \<Rightarrow> process \<Rightarrow> 'b result \<times> process) \<Rightarrow> 'b result \<times> process"
  where
  "bind m f = (case m of (Exit c, p) \<Rightarrow> (Exit c, p) | (Return x, p) \<Rightarrow> f x p)"

subsection \<open>generateListener\<close>

text \<open>The key is parsed only while the pointer is still \<open>nil\<close>.\<close>

definition load_identity :: "environment \<Rightarrow> Config \<Rightarrow> process \<Rightarrow> unit result \<times> process" where
  "load_identity env config p =
     (if publicKey p = None then
        (case parsePublicKey env (IdentityFile config) of
           Inl err \<Rightarrow>
             fatal ''No public key available''
               (emit [Call_parsePublicKey (IdentityFile config)] p)
         | Inr key \<Rightarrow>
             (Return (),
              emit [Call_parsePublicKey (IdentityFile config)] (p\<lparr>publicKey := Some key\<rparr>)))
      else (Return (), p))"

definition call_RegisterSite ::
  "environment \<Rightarrow> Config \<Rightarrow> process \<Rightarrow> (SiteSpecification \<times> error option) \<times> process" where
  "call_RegisterSite env config p =
     (RegisterSite env (registered p),
      emit [Call_RegisterSite apiURL (SiteID_cfg config)] (p\<lparr>registered := registered p + 1\<rparr>))"

definition call_RefreshToken :: "environment \<Rightarrow> process \<Rightarrow> error option \<times> process" where
  "call_RefreshToken env p =
     (case RefreshToken_func (token_endpoint env) (files p) of
        (err, fs) \<Rightarrow> (err, emit [Call_RefreshToken] (p\<lparr>files := fs\<rparr>)))"

text \<open>
  The registration, skipped when the site specification has a result code already. The
  result code is looked at only when \<open>RegisterSite\<close> returned an error.
\<close>

definition register_site ::
  "environment \<Rightarrow> Config \<Rightarrow> SiteSpecification \<Rightarrow> process \<Rightarrow> SiteSpecification result \<times> process"
  where
  "register_site env config siteSpecs0 p =
     (if ResultCode siteSpecs0 \<noteq> 0 then
        (Return siteSpecs0, emit [Info ''Trying to reuse old hostname...''] p)
      else
        (case call_RegisterSite env config p of
           ((siteSpecs, None), p1) \<Rightarrow> (Return siteSpecs, p1)
         | ((siteSpecs, Some err), p1) \<Rightarrow>
             if ResultCode siteSpecs = 400 then
               fatal ''Please fix the issue and try again''
                 (emit [ErrorLog ''The given hostname didn't match the requirements:'',
                        ErrorLog ''- Starts with a letter'',
                        ErrorLog ''- Contains only small letters and numbers'',
                        ErrorLog ''- Minimum 6 characters (not applicable for premium users)'']
                    p1)
             else if ResultCode siteSpecs = 401 then
               (case call_RefreshToken env p1 of
                  (Some err, p2) \<Rightarrow> fatal ''Failed to refresh token, try logging in again'' p2
                | (None, p2) \<Rightarrow>
                    (case call_RegisterSite env config p2 of
                       ((siteSpecs', Some err), p3) \<Rightarrow>
                         fatal ''Failed to register site, try logging in again'' p3
                     | ((siteSpecs', None), p3) \<Rightarrow> (Return siteSpecs', p3)))
             else if ResultCode siteSpecs = 403 then
               fatal (''You don't have required permissions to establish tunnel ''
                      @ ''with given parameters'') p1
             else if ResultCode siteSpecs = 409 then
               fatal ''The given hostname is already taken by different used'' p1
             else if ResultCode siteSpecs = 600 \<or> ResultCode siteSpecs = 601 then
               fatal ''Looks like you're not logged in'' p1
             else
               fatal ''Something unexpected happened, please let developers know'' p1))"

text \<open>
  The dial loop: \<open>for i := 0; i < sshRetries && !sshSuccess; i++\<close>. A success leaves the
  loop with the client; running out of attempts leaves it with none.
\<close>

definition sshRetries :: nat where
  "sshRetries = 5"

definition retry_notice :: "nat \<Rightarrow> string" where
  "retry_notice i =
     ''SSH Connection failed, retrying in 10 seconds... (Attempt ''
     @ dec (int i + 1) @ ''/'' @ dec (int sshRetries) @ '')''"

function dial_loop ::
  "environment \<Rightarrow> Config \<Rightarrow> string \<Rightarrow> nat \<Rightarrow> process \<Rightarrow> nat option \<times> process" where
  "dial_loop env config user i p =
     (if i < sshRetries then
        (let p1 = emit [Call_ssh_Dial (GatewayEndpoint config) user]
                    (p\<lparr>dialed := dialed p + 1\<rparr>) in
         case ssh_Dial env (dialed p) of
           Some err \<Rightarrow>
             dial_loop env config user (i + 1)
               (emit [Info (retry_notice i), Sleep 10] p1)
         | None \<Rightarrow> (Some (dialed p), p1))
      else (None, p))"
  by pat_completeness auto
termination
  by (relation "measure (\<lambda>(env, config, user, i, p). sshRetries - i)") auto

declare dial_loop.simps [simp del]

text \<open>What one failed attempt of the loop leaves in the trace: the dial, the notice, the
  sleep of ten seconds.\<close>

definition failed_attempt :: "Config \<Rightarrow> string \<Rightarrow> nat \<Rightarrow> event list" where
  "failed_attempt config user i =
     [Call_ssh_Dial (GatewayEndpoint config) user, Info (retry_notice i), Sleep 10]"

definition gateway_down_notice :: string where
  "gateway_down_notice =
     ''An error occured while dialing into SSH. If your connection has ''
     @ ''been running for a while, this might be caused by the server ''
     @ ''shutting down your connection.''"

text \<open>
  The user name of the SSH session is \<open>fmt.Sprintf(siteSpecs.SiteID)\<close>: the site
  identifier is the format. A format without \<open>%\<close> is returned as it is.
\<close>

definition ssh_user :: "environment \<Rightarrow> SiteSpecification \<Rightarrow> string" where
  "ssh_user env siteSpecs =
     (if CHR ''%'' \<in> set (SiteID siteSpecs) then Sprintf_verbs env (SiteID siteSpecs)
      else SiteID siteSpecs)"

definition dial_gateway ::
  "environment \<Rightarrow> Config \<Rightarrow> SiteSpecification \<Rightarrow> process \<Rightarrow> nat result \<times> process" where
  "dial_gateway env config siteSpecs p =
     (case dial_loop env config (ssh_user env siteSpecs) 0 p of
        (None, p1) \<Rightarrow>
          fatal ''Dialing SSH Gateway for HTTPS failed.''
            (emit [Print gateway_down_notice, Println] p1)
      | (Some serverSSHConnHTTPS, p1) \<Rightarrow> (Return serverSSHConnHTTPS, p1))"

text \<open>
  The rest of \<open>generateListener\<close>: the certificate manager, the reverse proxy, the
  loopback listener with the TLS server on it, the remote listener, and the lines for
  the user. The task of the TLS server is started and not followed further.
\<close>

definition certManager :: "environment \<Rightarrow> SiteSpecification \<Rightarrow> Manager" where
  "certManager env siteSpecs =
     \<lparr>HostPolicy = [SiteID siteSpecs @ ''.loophole.site'', ''abc.loophole.site''],
      Cache = GetLocalStorageDir env ''certs'',
      Email = SiteID siteSpecs @ ''@loophole.main.dev''\<rparr>"

definition forwarding_lines :: "Config \<Rightarrow> SiteSpecification \<Rightarrow> event list" where
  "forwarding_lines config siteSpecs =
     [Println,
      Print ''Forwarding '',
      Print (''https://'' @ SiteID siteSpecs @ ''.loophole.site''),
      Print '' -> '',
      Print (Host_cfg config @ '':'' @ dec (sint (Port_cfg config))),
      Println]
     @ (if QR config then [QRCode (''http://'' @ SiteID siteSpecs @ ''.loophole.site'')] else [])
     @ [Print (''TLS Certificate will be obtained with first request to the above address, ''
               @ ''therefore first execution may be slower''),
        Println,
        Println,
        Print ''Press CTRL + C to stop the service'',
        Println,
        Println,
        Print ''Logs:'',
        Println,
        Info ''Awaiting connections...'']"

definition start_proxy ::
  "environment \<Rightarrow> Config \<Rightarrow> SiteSpecification \<Rightarrow> nat \<Rightarrow> process
   \<Rightarrow> (nat \<times> Endpoint \<times> SiteSpecification) result \<times> process" where
  "start_proxy env config siteSpecs serverSSHConnHTTPS p =
     (let localEndpoint = \<lparr>Host = Host_cfg config, Port = Port_cfg config\<rparr>;
          p1 = emit [New_Manager (certManager env siteSpecs),
                     New_ReverseProxy ''http'' localEndpoint,
                     Call_net_Listen '':0''] (p\<lparr>listened := listened p + 1\<rparr>) in
      case net_Listen env (listened p) of
        Inl err \<Rightarrow> fatal ''Failed to listen on TLS proxy for HTTPS'' p1
      | Inr port \<Rightarrow>
          (let proxyListenerHTTPS = listened p;
               p2 = emit [Go_ServeTLS proxyListenerHTTPS,
                          Call_ssh_Listen serverSSHConnHTTPS remoteEndpoint]
                      (p1\<lparr>remote_listened := remote_listened p1 + 1\<rparr>) in
           case ssh_Listen env (remote_listened p1) of
             Some err \<Rightarrow> fatal ''Listening on remote endpoint for HTTPS failed'' p2
           | None \<Rightarrow>
               (let listenerHTTPSOverSSH = remote_listened p1;
                    proxiedEndpointHTTPS = \<lparr>Host = ''127.0.0.1'', Port = of_nat port\<rparr> in
                (Return (listenerHTTPSOverSSH, proxiedEndpointHTTPS, siteSpecs),
                 emit (forwarding_lines config siteSpecs) p2))))"

text \<open>What a successful \<open>start_proxy\<close> leaves in the trace, for the SSH client and the
  local listener of the given numbers.\<close>

definition proxy_events :: "environment \<Rightarrow> Config \<Rightarrow> SiteSpecification \<Rightarrow> nat \<Rightarrow> nat \<Rightarrow> event list"
  where
  "proxy_events env config siteSpecs client listener =
     [New_Manager (certManager env siteSpecs),
      New_ReverseProxy ''http'' \<lparr>Host = Host_cfg config, Port = Port_cfg config\<rparr>,
      Call_net_Listen '':0'',
      Go_ServeTLS listener,
      Call_ssh_Listen client remoteEndpoint]
     @ forwarding_lines config siteSpecs"

definition generateListener ::
  "environment \<Rightarrow> Config \<Rightarrow> SiteSpecification \<Rightarrow> process
   \<Rightarrow> (nat \<times> Endpoint \<times> SiteSpecification) result \<times> process" where
  "generateListener env config siteSpecs0 p =
     bind (load_identity env config p) (\<lambda>u p1.
     bind (register_site env config siteSpecs0 p1) (\<lambda>siteSpecs p2.
     bind (dial_gateway env config siteSpecs p2) (\<lambda>serverSSHConnHTTPS p3.
     start_proxy env config siteSpecs serverSSHConnHTTPS p3)))"

subsection \<open>Start and the accept loop\<close>

text \<open>
  What \<open>Accept\<close> on the remote listener returns: the end of the session, another error,
  or a stream. The loop of \<open>Start\<close> has no exit: it runs over the results of
  \<open>Accept\<close> that have come so far, and then waits for the next one, in \<open>Accept\<close> on
  the remote listener that the status names. The task started
  for a stream is run up to its call of \<open>handleClient\<close> at once; its dial into the
  local proxy uses the variable \<open>proxiedEndpointHTTPS\<close> of \<open>Start\<close>, which the loop
  never assigns. The task of \<open>setupCloseHandler\<close>, which ends the process with status 0
  on a signal, is left out, and so is the deferred \<open>Close\<close> of \<open>Start\<close>, which no
  path reaches.
\<close>

datatype accept_result = EOF | AcceptError | Stream nat

datatype status = Exited int | Accepting nat

fun accept_loop ::
  "environment \<Rightarrow> Config \<Rightarrow> nat \<Rightarrow> Endpoint \<Rightarrow> SiteSpecification \<Rightarrow> accept_result list
   \<Rightarrow> process \<Rightarrow> status \<times> process" where
  "accept_loop env config listenerHTTPSOverSSH proxiedEndpointHTTPS siteSpecs [] p =
     (Accepting listenerHTTPSOverSSH, p)"
| "accept_loop env config listenerHTTPSOverSSH proxiedEndpointHTTPS siteSpecs (EOF # rs) p =
     (case generateListener env config siteSpecs
             (emit [Info ''Connection dropped, reconnecting...'',
                    Close_Listener listenerHTTPSOverSSH] p) of
        (Exit c, p1) \<Rightarrow> (Exited c, p1)
      | (Return (listener, _, _), p1) \<Rightarrow>
          accept_loop env config listener proxiedEndpointHTTPS siteSpecs rs p1)"
| "accept_loop env config listenerHTTPSOverSSH proxiedEndpointHTTPS siteSpecs
     (AcceptError # rs) p =
     accept_loop env config listenerHTTPSOverSSH proxiedEndpointHTTPS siteSpecs rs
       (emit [Info ''Failed to accept connection over HTTPS''] p)"
| "accept_loop env config listenerHTTPSOverSSH proxiedEndpointHTTPS siteSpecs
     (Stream client # rs) p =
     (let p1 = emit [Info ''Succeeded to accept connection over HTTPS'',
                     Call_net_Dial proxiedEndpointHTTPS]
                 (p\<lparr>successfulConnectionOccured := True,
                    local_dialed := local_dialed p + 1\<rparr>) in
      case net_Dial env (local_dialed p) of
        Some err \<Rightarrow> (Exited 1, emit [Fatal ''Dialing into local proxy for HTTPS failed''] p1)
      | None \<Rightarrow>
          accept_loop env config listenerHTTPSOverSSH proxiedEndpointHTTPS siteSpecs rs
            (emit [Go_handleClient client (local_dialed p)] p1))"

definition printWelcomeMessage :: "event list" where
  "printWelcomeMessage =
     [Print ''Loophole'',
      Print '' - End to end TLS encrypted TCP communication between you and your clients'',
      Println,
      Println]"

definition new_process :: "filesystem \<Rightarrow> process" where
  "new_process fs =
     \<lparr>files = fs, publicKey = None, successfulConnectionOccured = False, registered = 0,
      dialed = 0, listened = 0, remote_listened = 0, local_dialed = 0, trace = []\<rparr>"

definition Start ::
  "environment \<Rightarrow> Config \<Rightarrow> filesystem \<Rightarrow> accept_result list \<Rightarrow> status \<times> process" where
  "Start env config fs rs =
     (case generateListener env config zero_SiteSpecification
             (emit printWelcomeMessage (new_process fs)) of
        (Exit c, p) \<Rightarrow> (Exited c, p)
      | (Return (listenerHTTPSOverSSH, proxiedEndpointHTTPS, siteSpecs), p) \<Rightarrow>
          accept_loop env config listenerHTTPSOverSSH proxiedEndpointHTTPS siteSpecs rs p)"

subsection \<open>handleClient\<close>

text \<open>
  The relay starts one copy task for each direction and waits for the first message on
  \<open>chDone\<close>; the deferred \<open>client.Close()\<close> runs when it returns. Which task is the
  first to finish, and whether its copy ended with an error, is given. The result is
  what has been done by the time \<open>handleClient\<close> returns.
\<close>

datatype direction = LocalToClient | ClientToLocal

datatype relay_event =
    Go_Copy nat nat        \<comment> \<open>a task running \<open>io.Copy(dst, src)\<close>\<close>
  | Debug string           \<comment> \<open>a message of level debug\<close>
  | Receive_chDone
  | Conn_Close nat

definition handleClient :: "nat \<Rightarrow> nat \<Rightarrow> direction \<Rightarrow> bool \<Rightarrow> relay_event list" where
  "handleClient client local first failed =
     [Go_Copy client local, Go_Copy local client]
     @ (if failed then
          [Debug (case first of
                    LocalToClient \<Rightarrow> ''Error copying local -> client:''
                  | ClientToLocal \<Rightarrow> ''Error copying client -> local:'')]
        else [])
     @ [Receive_chDone, Conn_Close client]"

subsection \<open>Reading a trace\<close>

text \<open>The endpoints of the dials into the local proxy, in the order of the trace.\<close>

fun dial_targets :: "event list \<Rightarrow> Endpoint list" where
  "dial_targets [] = []"
| "dial_targets (Call_net_Dial ep # es) = ep # dial_targets es"
| "dial_targets (e # es) = dial_targets es"

section \<open>Concrete inputs\<close>

definition example_token :: TokenSpec where
  "example_token =
     \<lparr>AccessToken = ''a1'', RefreshToken = ''r1'', IDToken = ''i1'', TokenType = ''Bearer'',
      ExpiresIn = 86400\<rparr>"

text \<open>A token pair whose access token is the single byte FF, which is not UTF-8.\<close>

definition broken_token :: TokenSpec where
  "broken_token = example_token\<lparr>AccessToken := [CHR 0xFF]\<rparr>"

definition empty_files :: filesystem where
  "empty_files = \<lparr>tokens_json = None, write_fails = False\<rparr>"

definition stored_tokens :: filesystem where
  "stored_tokens =
     \<lparr>tokens_json = Some (JSON (Marshal_TokenSpec example_token)), write_fails = False\<rparr>"

text \<open>An issuer that answers a refresh with a new access token and a new refresh token.\<close>

definition rotated_body :: payload where
  "rotated_body =
     JSON (JObject [(''access_token'', JString ''a2''),
                    (''refresh_token'', JString ''r2''),
                    (''expires_in'', JInt 86400)])"

definition rotating_issuer :: "refresh_request \<Rightarrow> http_result" where
  "rotating_issuer req = Response 200 rotated_body"

definition rotated_tokens :: filesystem where
  "rotated_tokens =
     \<lparr>tokens_json = Some (JSON (Marshal_TokenSpec
        \<lparr>AccessToken = ''a2'', RefreshToken = ''r1'', IDToken = [], TokenType = [],
         ExpiresIn = 86400\<rparr>)),
      write_fails = False\<rparr>"

text \<open>An issuer that refuses the refresh token, with the error that OAuth names
  \<open>invalid_grant\<close>.\<close>

definition refusing_issuer :: "refresh_request \<Rightarrow> http_result" where
  "refusing_issuer req =
     Response 403 (JSON (JObject [(''error'', JString ''invalid_grant''),
                                  (''error_description'', JString ''Unknown or invalid refresh token.'')]))"

definition example_config :: Config where
  "example_config =
     \<lparr>Host_cfg = ''127.0.0.1'', Port_cfg = 3000, IdentityFile = ''/home/user/.ssh/id_rsa'',
      GatewayEndpoint = \<lparr>Host = ''gateway.loophole.host'', Port = 8022\<rparr>,
      SiteID_cfg = [], QR = True\<rparr>"

definition example_site :: SiteSpecification where
  "example_site = \<lparr>SiteID = ''abc123'', ResultCode = 200\<rparr>"

text \<open>A world where every call succeeds; the loopback listeners get the ports 40000,
  40001 and so on.\<close>

definition quiet_world :: environment where
  "quiet_world =
     \<lparr>parsePublicKey = (\<lambda>file. Inr ''ssh-rsa AAAA''),
      RegisterSite = (\<lambda>n. (example_site, None)),
      token_endpoint = rotating_issuer,
      ssh_Dial = (\<lambda>n. None),
      net_Listen = (\<lambda>n. Inr (40000 + n)),
      ssh_Listen = (\<lambda>n. None),
      net_Dial = (\<lambda>n. None),
      GetLocalStorageDir = (\<lambda>d. ''/home/user/.loophole/'' @ d),
      Sprintf_verbs = (\<lambda>format. format)\<rparr>"

definition gateway_down :: environment where
  "gateway_down = quiet_world\<lparr>ssh_Dial := (\<lambda>n. Some (External ''connection refused''))\<rparr>"

definition gateway_slow :: environment where
  "gateway_slow =
     quiet_world\<lparr>ssh_Dial :=
       (\<lambda>n. if n < 2 then Some (External ''connection refused'') else None)\<rparr>"

text \<open>A registration that answers 401 to the first call and accepts the second; an issuer
  that denies the refresh; a registration that answers 401 every time.\<close>

definition expired_session :: environment where
  "expired_session =
     quiet_world\<lparr>RegisterSite :=
       (\<lambda>n. if n = 0 then (\<lparr>SiteID = [], ResultCode = 401\<rparr>, Some (External ''401''))
             else (example_site, None))\<rparr>"

definition denying_issuer :: "refresh_request \<Rightarrow> http_result" where
  "denying_issuer req = Response 403 (JSON (JObject [(''error'', JString ''access_denied'')]))"

definition revoked_session :: environment where
  "revoked_session = expired_session\<lparr>token_endpoint := denying_issuer\<rparr>"

definition locked_out :: environment where
  "locked_out =
     quiet_world\<lparr>RegisterSite :=
       (\<lambda>n. (\<lparr>SiteID = [], ResultCode = 401\<rparr>, Some (External ''401'')))\<rparr>"

text \<open>
  The run in the world where every call succeeds: the events up to the first \<open>Accept\<close>,
  the process at that point, the events of one reconnect, and the same events read off
  the traces of \<open>Start\<close>.
\<close>

definition first_session :: "event list" where
  "first_session =
     printWelcomeMessage
     @ [Call_parsePublicKey (IdentityFile example_config),
        Call_RegisterSite apiURL (SiteID_cfg example_config),
        Call_ssh_Dial (GatewayEndpoint example_config) (ssh_user quiet_world example_site)]
     @ proxy_events quiet_world example_config example_site 0 0"


definition first_process :: process where
  "first_process =
     emit first_session
       ((new_process stored_tokens)\<lparr>publicKey := Some ''ssh-rsa AAAA'', registered := 1,
          dialed := 1, listened := 1, remote_listened := 1\<rparr>)"


section \<open>Properties of the token store\<close>

subsection \<open>Coercion to UTF-8\<close>

lemma rune_size_le: "rune_size s \<le> length s"
  by (cases s) (auto simp: Let_def split: list.splits)

lemma rune_size_prefix: "rune_size s = n \<Longrightarrow> 0 < n \<Longrightarrow> rune_size (take n s @ t) = n"
  by (cases s) (auto simp: Let_def split: if_splits list.splits)

lemma rune_size_RuneError: "rune_size (RuneError @ t) = 3"
  by (simp add: RuneError_def second_ok_def continuation_def)

lemma ValidString_Nil [simp]: "ValidString []"
  by (simp add: ValidString.simps)

lemma ValidString_step:
  "s \<noteq> [] \<Longrightarrow> rune_size s = n \<Longrightarrow> 0 < n \<Longrightarrow> drop n s = r \<Longrightarrow> ValidString s = ValidString r"
  by (subst ValidString.simps) simp

lemma ValidString_invalid: "s \<noteq> [] \<Longrightarrow> rune_size s = 0 \<Longrightarrow> \<not> ValidString s"
  by (subst ValidString.simps) simp

lemma coerce_utf8_Nil [simp]: "coerce_utf8 [] = []"
  by (simp add: coerce_utf8.simps)

lemma coerce_utf8_step:
  "s \<noteq> [] \<Longrightarrow> rune_size s = n \<Longrightarrow> 0 < n \<Longrightarrow>
   coerce_utf8 s = take n s @ coerce_utf8 (drop n s)"
  by (subst coerce_utf8.simps) simp

lemma coerce_utf8_invalid:
  "s \<noteq> [] \<Longrightarrow> rune_size s = 0 \<Longrightarrow> coerce_utf8 s = RuneError @ coerce_utf8 (tl s)"
  by (subst coerce_utf8.simps) simp

lemma ValidString_rune:
  assumes "rune_size s = n" and "0 < n"
  shows "ValidString (take n s @ t) = ValidString t"
proof -
  have le: "n \<le> length s" using assms(1) rune_size_le [of s] by simp
  have ne: "take n s @ t \<noteq> []" using assms(2) le by auto
  have dr: "drop n (take n s @ t) = t" using le by simp
  show ?thesis
    by (rule ValidString_step [OF ne rune_size_prefix [OF assms] assms(2) dr])
qed

lemma ValidString_RuneError: "ValidString (RuneError @ t) = ValidString t"
proof -
  have ne: "RuneError @ t \<noteq> []" by (simp add: RuneError_def)
  have dr: "drop 3 (RuneError @ t) = t" by (simp add: RuneError_def)
  show ?thesis
    by (rule ValidString_step [OF ne rune_size_RuneError _ dr]) simp
qed

text \<open>What the coercion returns is valid, and it leaves a valid string as it is.\<close>

lemma ValidString_coerce_utf8 [simp]: "ValidString (coerce_utf8 s)"
proof (induction s rule: coerce_utf8.induct)
  case (1 s)
  show ?case
  proof (cases "s = []")
    case True
    then show ?thesis by simp
  next
    case False
    show ?thesis
    proof (cases "rune_size s = 0")
      case True
      from "1.IH"(1) [OF False refl True] show ?thesis
        by (simp add: coerce_utf8_invalid [OF False True] ValidString_RuneError)
    next
      case nz: False
      then have pos: "0 < rune_size s" by simp
      from "1.IH"(2) [OF False refl nz] show ?thesis
        by (simp add: coerce_utf8_step [OF False refl pos] ValidString_rune [OF refl pos])
    qed
  qed
qed

lemma coerce_utf8_valid: "ValidString s \<Longrightarrow> coerce_utf8 s = s"
proof (induction s rule: coerce_utf8.induct)
  case (1 s)
  show ?case
  proof (cases "s = []")
    case True
    then show ?thesis by simp
  next
    case False
    have nz: "rune_size s \<noteq> 0"
      using "1.prems" ValidString_invalid [OF False] by blast
    then have pos: "0 < rune_size s" by simp
    have rest: "ValidString (drop (rune_size s) s)"
      using "1.prems" ValidString_step [OF False refl pos refl] by simp
    from "1.IH"(2) [OF False refl nz rest] show ?thesis
      by (simp add: coerce_utf8_step [OF False refl pos])
  qed
qed

lemma ValidString_ascii: "\<forall>c\<in>set s. (of_char c :: nat) < 128 \<Longrightarrow> ValidString s"
proof (induction s)
  case Nil
  show ?case by simp
next
  case (Cons c s)
  have "rune_size (c # s) = 1" using Cons.prems by simp
  from ValidString_step [OF _ this, of s] Cons show ?case by simp
qed

lemma coerce_utf8_ascii: "\<forall>c\<in>set s. (of_char c :: nat) < 128 \<Longrightarrow> coerce_utf8 s = s"
  by (simp add: coerce_utf8_valid ValidString_ascii)

subsection \<open>Saving and reading\<close>

lemma match_field_exact: "key \<in> set tags \<Longrightarrow> match_field tags key = Some key"
  by (simp add: match_field_def)

lemma Unmarshal_Marshal_TokenSpec:
  "Unmarshal_TokenSpec (JSON (Marshal_TokenSpec t)) =
     Inr \<lparr>AccessToken = coerce_utf8 (AccessToken t), RefreshToken = coerce_utf8 (RefreshToken t),
          IDToken = coerce_utf8 (IDToken t), TokenType = coerce_utf8 (TokenType t),
          ExpiresIn = ExpiresIn t\<rparr>"
proof -
  have range: "- (2 ^ 63) \<le> sint (ExpiresIn t) \<and> sint (ExpiresIn t) < 2 ^ 63"
    using sint_ge [of "ExpiresIn t"] sint_lt [of "ExpiresIn t"] by simp
  from range show ?thesis
    by (simp add: Marshal_TokenSpec_def TokenSpec_member_def match_field_exact
        TokenSpec_tags_def zero_TokenSpec_def finish_def coerce_utf8_valid)
qed

lemma GetRefreshToken_SaveToken:
  "SaveToken t fs = (None, fs') \<Longrightarrow> GetRefreshToken fs' = Inr (coerce_utf8 (RefreshToken t))"
  by (auto simp: SaveToken_def GetRefreshToken_def Unmarshal_Marshal_TokenSpec
      split: if_splits)

lemma GetAccessToken_SaveToken:
  "SaveToken t fs = (None, fs') \<Longrightarrow> GetAccessToken fs' = Inr (coerce_utf8 (AccessToken t))"
  by (auto simp: SaveToken_def GetAccessToken_def Unmarshal_Marshal_TokenSpec
      split: if_splits)

text \<open>Every string that \<open>json.Unmarshal\<close> stores is valid UTF-8, so the refresh token
  that \<open>GetRefreshToken\<close> returns is.\<close>

lemma into_string_valid:
  "into_string v cur = Inr s \<Longrightarrow> ValidString cur \<Longrightarrow> ValidString s"
  by (cases v) auto

lemma TokenSpec_member_valid:
  "ValidString (RefreshToken (fst st)) \<Longrightarrow> ValidString (RefreshToken (fst (TokenSpec_member st kv)))"
  by (auto simp: TokenSpec_member_def Let_def dest: into_string_valid
      split: option.splits sum.splits)

lemma foldl_TokenSpec_member_valid:
  "ValidString (RefreshToken (fst st)) \<Longrightarrow>
   ValidString (RefreshToken (fst (foldl TokenSpec_member st kvs)))"
  by (induction kvs arbitrary: st) (simp_all add: TokenSpec_member_valid)

lemma Unmarshal_TokenSpec_valid:
  assumes "Unmarshal_TokenSpec body = Inr t"
  shows "ValidString (RefreshToken t)"
proof (cases body)
  case NotJSON
  with assms show ?thesis by simp
next
  case (JSON j)
  show ?thesis
  proof (cases j)
    case (JObject kvs)
    have "ValidString (RefreshToken (fst (foldl TokenSpec_member (zero_TokenSpec, None) kvs)))"
      by (rule foldl_TokenSpec_member_valid) (simp add: zero_TokenSpec_def)
    with assms JSON JObject show ?thesis
      by (auto simp: finish_def split: option.splits)
  qed (use assms JSON in \<open>auto simp: zero_TokenSpec_def\<close>)
qed

lemma GetRefreshToken_valid: "GetRefreshToken fs = Inr token \<Longrightarrow> ValidString token"
  by (auto simp: GetRefreshToken_def dest: Unmarshal_TokenSpec_valid
      split: option.splits sum.splits)

lemma stored_refresh: "GetRefreshToken stored_tokens = Inr ''r1''"
  using GetRefreshToken_SaveToken [of example_token empty_files stored_tokens]
  by (simp add: SaveToken_def empty_files_def stored_tokens_def example_token_def
      coerce_utf8_ascii)

lemma refresh_at_rotating_issuer:
  "RefreshToken_func rotating_issuer stored_tokens = (None, rotated_tokens)"
  unfolding RefreshToken_func_def stored_refresh
  by (simp add: rotating_issuer_def rotated_body_def rotated_tokens_def
      TokenSpec_member_def match_field_exact TokenSpec_tags_def zero_TokenSpec_def
      finish_def SaveToken_def stored_tokens_def Marshal_TokenSpec_def coerce_utf8_ascii)

text \<open>
  C9, as the claim states it, fails: the token pair whose access token is the byte FF is
  saved without error, and the access token read back is the three bytes of U+FFFD.
\<close>

theorem save_then_read_replaces_invalid_bytes:
  "AccessToken broken_token = [CHR 0xFF]
   \<and> fst (SaveToken broken_token empty_files) = None
   \<and> GetAccessToken (snd (SaveToken broken_token empty_files))
       = Inr [CHR 0xEF, CHR 0xBF, CHR 0xBD]
   \<and> GetAccessToken (snd (SaveToken broken_token empty_files))
       \<noteq> Inr (AccessToken broken_token)"
proof -
  have saved: "SaveToken broken_token empty_files
      = (None, snd (SaveToken broken_token empty_files))"
    by (simp add: SaveToken_def empty_files_def)
  have "coerce_utf8 [CHR 0xFF] = [CHR 0xEF, CHR 0xBF, CHR 0xBD]"
    by (simp add: coerce_utf8_invalid RuneError_def)
  with GetAccessToken_SaveToken [OF saved] show ?thesis
    by (simp add: broken_token_def SaveToken_def empty_files_def)
qed

text \<open>
  C9, amended. For every token pair whose access token and refresh token are valid UTF-8,
  saving it and then reading the access token and the refresh token back gives the two
  fields that were saved.
\<close>

theorem save_then_read:
  "SaveToken t fs = (None, fs') \<Longrightarrow> ValidString (AccessToken t) \<Longrightarrow>
   ValidString (RefreshToken t) \<Longrightarrow>
     GetAccessToken fs' = Inr (AccessToken t) \<and> GetRefreshToken fs' = Inr (RefreshToken t)"
  by (simp add: GetRefreshToken_SaveToken GetAccessToken_SaveToken coerce_utf8_valid)

theorem save_then_read_witness:
  "SaveToken example_token empty_files = (None, stored_tokens) \<and>
   ValidString (AccessToken example_token) \<and> ValidString (RefreshToken example_token) \<and>
   GetAccessToken stored_tokens = Inr ''a1'' \<and>
   GetRefreshToken stored_tokens = Inr ''r1''"
proof -
  have saved: "SaveToken example_token empty_files = (None, stored_tokens)"
    by (simp add: SaveToken_def empty_files_def stored_tokens_def)
  have a: "ValidString (AccessToken example_token)"
    by (simp add: example_token_def ValidString_ascii)
  have r: "ValidString (RefreshToken example_token)"
    by (simp add: example_token_def ValidString_ascii)
  from save_then_read [OF saved a r] saved a r show ?thesis
    by (simp add: example_token_def)
qed

text \<open>
  C1, as the claim states it, fails: the issuer answers 200 with the new refresh token
  \<open>r2\<close>, the refresh succeeds, and the file still holds the old refresh token \<open>r1\<close>.
\<close>

theorem refresh_discards_issued_refresh_token:
  "map_sum id RefreshToken (Unmarshal_TokenSpec rotated_body) = Inr ''r2'' \<and>
   GetRefreshToken stored_tokens = Inr ''r1'' \<and>
   fst (RefreshToken_func rotating_issuer stored_tokens) = None \<and>
   GetRefreshToken (snd (RefreshToken_func rotating_issuer stored_tokens)) = Inr ''r1'' \<and>
   ''r2'' \<noteq> ''r1'' \<and> ''r2'' \<noteq> []"
proof -
  have "GetRefreshToken rotated_tokens = Inr ''r1''"
    by (simp add: GetRefreshToken_def rotated_tokens_def Unmarshal_Marshal_TokenSpec
        coerce_utf8_ascii)
  moreover have "map_sum id RefreshToken (Unmarshal_TokenSpec rotated_body) = Inr ''r2''"
    by (simp add: rotated_body_def TokenSpec_member_def match_field_exact TokenSpec_tags_def
        zero_TokenSpec_def finish_def coerce_utf8_ascii)
  ultimately show ?thesis
    by (simp add: refresh_at_rotating_issuer stored_refresh)
qed

text \<open>
  C1, amended. After every call of \<open>RefreshToken\<close> that returns no error, the refresh
  token in the file is the one that was there before the call, whatever the response of
  the issuer held.
\<close>

theorem refresh_keeps_refresh_token:
  "RefreshToken_func post fs = (None, fs') \<Longrightarrow>
     \<exists>token. GetRefreshToken fs = Inr token \<and> GetRefreshToken fs' = Inr token"
  by (auto simp: RefreshToken_func_def coerce_utf8_valid
      dest!: GetRefreshToken_SaveToken dest: GetRefreshToken_valid
      split: sum.splits http_result.splits if_splits)

theorem refresh_keeps_refresh_token_witness:
  "RefreshToken_func rotating_issuer stored_tokens = (None, rotated_tokens) \<and>
   GetRefreshToken stored_tokens = Inr ''r1'' \<and> GetRefreshToken rotated_tokens = Inr ''r1''"
  using refresh_keeps_refresh_token [OF refresh_at_rotating_issuer]
  by (simp add: refresh_at_rotating_issuer stored_refresh)

text \<open>
  C4. The issuer answers 403 with the error \<open>invalid_grant\<close>, which is none of the three
  errors that the code knows: \<open>RefreshToken\<close> returns no error, and the file is as it
  was.
\<close>

theorem refresh_succeeds_without_saving:
  "RefreshToken_func refusing_issuer stored_tokens = (None, stored_tokens)"
  unfolding RefreshToken_func_def stored_refresh
  by (simp add: refusing_issuer_def AuthError_member_def match_field_exact AuthError_tags_def
      zero_AuthError_def finish_def coerce_utf8_ascii)

section \<open>Properties of the supervisor\<close>

subsection \<open>The trace\<close>

lemma emit_emit [simp]: "emit es (emit es' p) = emit (es' @ es) p"
  by (simp add: emit_def)

lemma emit_Nil [simp]: "emit [] p = p"
  by (simp add: emit_def)

lemma fields_emit [simp]:
  "files (emit es p) = files p"
  "publicKey (emit es p) = publicKey p"
  "successfulConnectionOccured (emit es p) = successfulConnectionOccured p"
  "registered (emit es p) = registered p"
  "dialed (emit es p) = dialed p"
  "listened (emit es p) = listened p"
  "remote_listened (emit es p) = remote_listened p"
  "local_dialed (emit es p) = local_dialed p"
  "trace (emit es p) = trace p @ es"
  by (simp_all add: emit_def)

lemma update_emit [simp]:
  "(emit es p)\<lparr>files := fs\<rparr> = emit es (p\<lparr>files := fs\<rparr>)"
  "(emit es p)\<lparr>publicKey := k\<rparr> = emit es (p\<lparr>publicKey := k\<rparr>)"
  "(emit es p)\<lparr>successfulConnectionOccured := b\<rparr>
     = emit es (p\<lparr>successfulConnectionOccured := b\<rparr>)"
  "(emit es p)\<lparr>registered := n\<rparr> = emit es (p\<lparr>registered := n\<rparr>)"
  "(emit es p)\<lparr>dialed := n\<rparr> = emit es (p\<lparr>dialed := n\<rparr>)"
  "(emit es p)\<lparr>listened := n\<rparr> = emit es (p\<lparr>listened := n\<rparr>)"
  "(emit es p)\<lparr>remote_listened := n\<rparr> = emit es (p\<lparr>remote_listened := n\<rparr>)"
  "(emit es p)\<lparr>local_dialed := n\<rparr> = emit es (p\<lparr>local_dialed := n\<rparr>)"
  by (simp_all add: emit_def)

subsection \<open>The dial loop\<close>

lemma dial_loop_failure_step:
  "i < sshRetries \<Longrightarrow> ssh_Dial env (dialed p) = Some err \<Longrightarrow>
   dial_loop env config user i p =
     dial_loop env config user (i + 1)
       (emit (failed_attempt config user i) (p\<lparr>dialed := dialed p + 1\<rparr>))"
  by (simp add: dial_loop.simps [of env config user i p] Let_def failed_attempt_def)

lemma dial_loop_success_step:
  "i < sshRetries \<Longrightarrow> ssh_Dial env (dialed p) = None \<Longrightarrow>
   dial_loop env config user i p =
     (Some (dialed p),
      emit [Call_ssh_Dial (GatewayEndpoint config) user] (p\<lparr>dialed := dialed p + 1\<rparr>))"
  by (simp add: dial_loop.simps [of env config user i p] Let_def)

lemma dial_loop_exhausted:
  "\<not> i < sshRetries \<Longrightarrow> dial_loop env config user i p = (None, p)"
  by (simp add: dial_loop.simps [of env config user i p])

lemma dial_loop_fails:
  "(\<forall>j. j < sshRetries - i \<longrightarrow> ssh_Dial env (dialed p + j) \<noteq> None) \<Longrightarrow>
   dial_loop env config user i p =
     (None, emit (concat (map (failed_attempt config user) [i..<sshRetries]))
              (p\<lparr>dialed := dialed p + (sshRetries - i)\<rparr>))"
proof (induction "sshRetries - i" arbitrary: i p)
  case 0
  then have "\<not> i < sshRetries" by simp
  then show ?case by (simp add: dial_loop_exhausted)
next
  case (Suc n)
  then have lt: "i < sshRetries" by arith
  from lt Suc.prems obtain err where err: "ssh_Dial env (dialed p) = Some err"
    by (metis add.right_neutral not_None_eq zero_less_diff)
  let ?p = "emit (failed_attempt config user i) (p\<lparr>dialed := dialed p + 1\<rparr>)"
  have n: "n = sshRetries - (i + 1)" using Suc.hyps(2) by arith
  have later: "\<forall>j. j < sshRetries - (i + 1) \<longrightarrow> ssh_Dial env (dialed ?p + j) \<noteq> None"
  proof (intro allI impI)
    fix j assume "j < sshRetries - (i + 1)"
    then have "Suc j < sshRetries - i" by arith
    with Suc.prems have "ssh_Dial env (dialed p + Suc j) \<noteq> None" by blast
    then show "ssh_Dial env (dialed ?p + j) \<noteq> None" by simp
  qed
  have upt: "[i..<sshRetries] = i # [i + 1..<sshRetries]"
    using lt by (simp add: upt_conv_Cons)
  have d: "dialed ?p + (sshRetries - (i + 1)) = dialed p + (sshRetries - i)"
    using lt by simp
  show ?case
    unfolding dial_loop_failure_step [OF lt err] Suc.hyps(1) [OF n later] upt d
    by simp
qed

lemma dial_loop_succeeds:
  "i + k < sshRetries \<Longrightarrow> (\<forall>j<k. ssh_Dial env (dialed p + j) \<noteq> None) \<Longrightarrow>
   ssh_Dial env (dialed p + k) = None \<Longrightarrow>
   dial_loop env config user i p =
     (Some (dialed p + k),
      emit (concat (map (failed_attempt config user) [i..<i + k])
            @ [Call_ssh_Dial (GatewayEndpoint config) user])
        (p\<lparr>dialed := dialed p + k + 1\<rparr>))"
proof (induction k arbitrary: i p)
  case 0
  then show ?case by (simp add: dial_loop_success_step)
next
  case (Suc k)
  from Suc.prems obtain err where err: "ssh_Dial env (dialed p) = Some err"
    by (metis add.right_neutral not_None_eq zero_less_Suc)
  let ?p = "emit (failed_attempt config user i) (p\<lparr>dialed := dialed p + 1\<rparr>)"
  have lt: "i < sshRetries" using Suc.prems by arith
  have a: "(i + 1) + k < sshRetries" using Suc.prems by arith
  have b: "\<forall>j<k. ssh_Dial env (dialed ?p + j) \<noteq> None"
  proof (intro allI impI)
    fix j assume "j < k"
    then have "Suc j < Suc k" by arith
    with Suc.prems have "ssh_Dial env (dialed p + Suc j) \<noteq> None" by blast
    then show "ssh_Dial env (dialed ?p + j) \<noteq> None" by simp
  qed
  have c: "ssh_Dial env (dialed ?p + k) = None"
    using Suc.prems by simp
  have upt: "[i..<i + Suc k] = i # [i + 1..<(i + 1) + k]"
    by (simp add: upt_conv_Cons)
  show ?case
    unfolding dial_loop_failure_step [OF lt err] Suc.IH [OF a b c] upt
    by simp
qed

text \<open>
  C6. In one run of the dial step the gateway is dialed at most 5 times, and every failed
  attempt is followed by a sleep of 10 seconds. When the 5 attempts fail, the process
  exits with status 1 after the message \<open>Dialing SSH Gateway for HTTPS failed.\<close>; when
  the attempt number \<open>k\<close> (counted from 0, below 5) is the first to succeed, no further
  dial is made and the step returns the client.
\<close>

theorem dial_gateway_retries:
  "((\<forall>j<5. ssh_Dial env (dialed p + j) \<noteq> None) \<longrightarrow>
      dial_gateway env config siteSpecs p =
        (Exit 1,
         emit (concat (map (failed_attempt config (ssh_user env siteSpecs)) [0..<5])
               @ [Print gateway_down_notice, Println,
                  Fatal ''Dialing SSH Gateway for HTTPS failed.''])
           (p\<lparr>dialed := dialed p + 5\<rparr>)))
   \<and> (\<forall>k<5. (\<forall>j<k. ssh_Dial env (dialed p + j) \<noteq> None) \<and> ssh_Dial env (dialed p + k) = None \<longrightarrow>
      dial_gateway env config siteSpecs p =
        (Return (dialed p + k),
         emit (concat (map (failed_attempt config (ssh_user env siteSpecs)) [0..<k])
               @ [Call_ssh_Dial (GatewayEndpoint config) (ssh_user env siteSpecs)])
           (p\<lparr>dialed := dialed p + k + 1\<rparr>)))"
proof (intro conjI impI allI)
  assume "\<forall>j<5. ssh_Dial env (dialed p + j) \<noteq> None"
  then have "\<forall>j. j < sshRetries - 0 \<longrightarrow> ssh_Dial env (dialed p + j) \<noteq> None"
    by (simp add: sshRetries_def)
  from dial_loop_fails [OF this]
  show "dial_gateway env config siteSpecs p =
        (Exit 1,
         emit (concat (map (failed_attempt config (ssh_user env siteSpecs)) [0..<5])
               @ [Print gateway_down_notice, Println,
                  Fatal ''Dialing SSH Gateway for HTTPS failed.''])
           (p\<lparr>dialed := dialed p + 5\<rparr>))"
    by (simp add: dial_gateway_def fatal_def sshRetries_def)
next
  fix k :: nat
  assume k: "k < 5"
    and h: "(\<forall>j<k. ssh_Dial env (dialed p + j) \<noteq> None) \<and> ssh_Dial env (dialed p + k) = None"
  from k have "0 + k < sshRetries" by (simp add: sshRetries_def)
  from dial_loop_succeeds [OF this conjunct1 [OF h] conjunct2 [OF h]]
  show "dial_gateway env config siteSpecs p =
        (Return (dialed p + k),
         emit (concat (map (failed_attempt config (ssh_user env siteSpecs)) [0..<k])
               @ [Call_ssh_Dial (GatewayEndpoint config) (ssh_user env siteSpecs)])
           (p\<lparr>dialed := dialed p + k + 1\<rparr>))"
    by (simp add: dial_gateway_def)
qed

theorem dial_gateway_retries_witness:
  "fst (dial_gateway gateway_down example_config example_site (new_process stored_tokens)) = Exit 1
   \<and> dialed (snd (dial_gateway gateway_down example_config example_site
                     (new_process stored_tokens))) = 5
   \<and> fst (dial_gateway gateway_slow example_config example_site (new_process stored_tokens))
       = Return 2
   \<and> dialed (snd (dial_gateway gateway_slow example_config example_site
                     (new_process stored_tokens))) = 3"
proof -
  let ?p = "new_process stored_tokens"
  have down: "\<forall>j<5. ssh_Dial gateway_down (dialed ?p + j) \<noteq> None"
    by (simp add: gateway_down_def)
  have slow: "(\<forall>j<2. ssh_Dial gateway_slow (dialed ?p + j) \<noteq> None)
              \<and> ssh_Dial gateway_slow (dialed ?p + 2) = None"
    by (simp add: gateway_slow_def new_process_def)
  have two: "(2::nat) < 5" by simp
  from dial_gateway_retries [of gateway_down ?p example_config example_site] down
  have a: "dial_gateway gateway_down example_config example_site ?p =
        (Exit 1,
         emit (concat (map (failed_attempt example_config (ssh_user gateway_down example_site))
                       [0..<5])
               @ [Print gateway_down_notice, Println,
                  Fatal ''Dialing SSH Gateway for HTTPS failed.''])
           (?p\<lparr>dialed := dialed ?p + 5\<rparr>))"
    by blast
  from dial_gateway_retries [of gateway_slow ?p example_config example_site] slow two
  have b: "dial_gateway gateway_slow example_config example_site ?p =
        (Return (dialed ?p + 2),
         emit (concat (map (failed_attempt example_config (ssh_user gateway_slow example_site))
                       [0..<2])
               @ [Call_ssh_Dial (GatewayEndpoint example_config)
                    (ssh_user gateway_slow example_site)])
           (?p\<lparr>dialed := dialed ?p + 2 + 1\<rparr>))"
    by blast
  show ?thesis unfolding a b by (simp add: new_process_def)
qed

lemma refresh_at_denying_issuer:
  "RefreshToken_func denying_issuer stored_tokens = (Some TokenDenied, stored_tokens)"
  unfolding RefreshToken_func_def stored_refresh
  by (simp add: denying_issuer_def AuthError_member_def match_field_exact AuthError_tags_def
      zero_AuthError_def finish_def coerce_utf8_ascii)

subsection \<open>Registration\<close>

text \<open>
  C7. When the registration is attempted and \<open>RegisterSite\<close> fails with the result code
  401, \<open>RefreshToken\<close> is called exactly once. If it fails, the process exits with
  status 1 and there is no second registration. If it succeeds, \<open>RegisterSite\<close> is called
  exactly once more: an error of that call ends the process with status 1, and otherwise
  its site specification is the result. In no case are there more than two calls of
  \<open>RegisterSite\<close>.
\<close>

theorem registration_401_refresh_and_retry:
  assumes fresh: "ResultCode siteSpecs = 0"
    and first: "RegisterSite env (registered p) = (answer, Some err)"
    and code: "ResultCode answer = 401"
  shows
    "(RefreshToken_func (token_endpoint env) (files p) = (Some refreshErr, fs) \<longrightarrow>
        register_site env config siteSpecs p =
          (Exit 1,
           emit [Call_RegisterSite apiURL (SiteID_cfg config), Call_RefreshToken,
                 Fatal ''Failed to refresh token, try logging in again'']
             (p\<lparr>files := fs, registered := registered p + 1\<rparr>)))
     \<and> (RefreshToken_func (token_endpoint env) (files p) = (None, fs)
          \<and> RegisterSite env (registered p + 1) = (again, Some againErr) \<longrightarrow>
        register_site env config siteSpecs p =
          (Exit 1,
           emit [Call_RegisterSite apiURL (SiteID_cfg config), Call_RefreshToken,
                 Call_RegisterSite apiURL (SiteID_cfg config),
                 Fatal ''Failed to register site, try logging in again'']
             (p\<lparr>files := fs, registered := registered p + 2\<rparr>)))
     \<and> (RefreshToken_func (token_endpoint env) (files p) = (None, fs)
          \<and> RegisterSite env (registered p + 1) = (again, None) \<longrightarrow>
        register_site env config siteSpecs p =
          (Return again,
           emit [Call_RegisterSite apiURL (SiteID_cfg config), Call_RefreshToken,
                 Call_RegisterSite apiURL (SiteID_cfg config)]
             (p\<lparr>files := fs, registered := registered p + 2\<rparr>)))
     \<and> count_list (drop (length (trace p)) (trace (snd (register_site env config siteSpecs p))))
          Call_RefreshToken = 1
     \<and> registered (snd (register_site env config siteSpecs p)) \<le> registered p + 2"
proof (intro conjI impI)
  assume "RefreshToken_func (token_endpoint env) (files p) = (Some refreshErr, fs)"
  with assms show "register_site env config siteSpecs p =
          (Exit 1,
           emit [Call_RegisterSite apiURL (SiteID_cfg config), Call_RefreshToken,
                 Fatal ''Failed to refresh token, try logging in again'']
             (p\<lparr>files := fs, registered := registered p + 1\<rparr>))"
    by (simp add: register_site_def call_RegisterSite_def call_RefreshToken_def fatal_def)
next
  assume "RefreshToken_func (token_endpoint env) (files p) = (None, fs)
          \<and> RegisterSite env (registered p + 1) = (again, Some againErr)"
  with assms show "register_site env config siteSpecs p =
          (Exit 1,
           emit [Call_RegisterSite apiURL (SiteID_cfg config), Call_RefreshToken,
                 Call_RegisterSite apiURL (SiteID_cfg config),
                 Fatal ''Failed to register site, try logging in again'']
             (p\<lparr>files := fs, registered := registered p + 2\<rparr>))"
    by (simp add: register_site_def call_RegisterSite_def call_RefreshToken_def fatal_def)
next
  assume "RefreshToken_func (token_endpoint env) (files p) = (None, fs)
          \<and> RegisterSite env (registered p + 1) = (again, None)"
  with assms show "register_site env config siteSpecs p =
          (Return again,
           emit [Call_RegisterSite apiURL (SiteID_cfg config), Call_RefreshToken,
                 Call_RegisterSite apiURL (SiteID_cfg config)]
             (p\<lparr>files := fs, registered := registered p + 2\<rparr>))"
    by (simp add: register_site_def call_RegisterSite_def call_RefreshToken_def fatal_def)
next
  from assms show "count_list (drop (length (trace p))
         (trace (snd (register_site env config siteSpecs p)))) Call_RefreshToken = 1"
    by (simp add: register_site_def call_RegisterSite_def call_RefreshToken_def fatal_def
        split: prod.splits option.splits)
next
  from assms show "registered (snd (register_site env config siteSpecs p)) \<le> registered p + 2"
    by (simp add: register_site_def call_RegisterSite_def call_RefreshToken_def fatal_def
        split: prod.splits option.splits)
qed

theorem registration_401_refresh_and_retry_witness:
  "register_site expired_session example_config zero_SiteSpecification
       (new_process stored_tokens) =
     (Return example_site,
      emit [Call_RegisterSite apiURL [], Call_RefreshToken, Call_RegisterSite apiURL []]
        ((new_process stored_tokens)\<lparr>files := rotated_tokens, registered := 2\<rparr>))
   \<and> fst (register_site revoked_session example_config zero_SiteSpecification
            (new_process stored_tokens)) = Exit 1
   \<and> registered (snd (register_site revoked_session example_config zero_SiteSpecification
            (new_process stored_tokens))) = 1
   \<and> fst (register_site locked_out example_config zero_SiteSpecification
            (new_process stored_tokens)) = Exit 1
   \<and> registered (snd (register_site locked_out example_config zero_SiteSpecification
            (new_process stored_tokens))) = 2"
proof -
  let ?p = "new_process stored_tokens"
  let ?answer = "\<lparr>SiteID = [], ResultCode = 401\<rparr>"
  have fresh: "ResultCode zero_SiteSpecification = 0"
    by (simp add: zero_SiteSpecification_def)
  have code: "ResultCode ?answer = 401" by simp
  have first_a: "RegisterSite expired_session (registered ?p) = (?answer, Some (External ''401''))"
    by (simp add: expired_session_def new_process_def)
  have first_b: "RegisterSite revoked_session (registered ?p) = (?answer, Some (External ''401''))"
    by (simp add: revoked_session_def expired_session_def new_process_def)
  have first_c: "RegisterSite locked_out (registered ?p) = (?answer, Some (External ''401''))"
    by (simp add: locked_out_def new_process_def)
  have ok_a: "RefreshToken_func (token_endpoint expired_session) (files ?p) = (None, rotated_tokens)
      \<and> RegisterSite expired_session (registered ?p + 1) = (example_site, None)"
    by (simp add: expired_session_def quiet_world_def new_process_def refresh_at_rotating_issuer)
  have no_b: "RefreshToken_func (token_endpoint revoked_session) (files ?p)
      = (Some TokenDenied, stored_tokens)"
    by (simp add: revoked_session_def new_process_def refresh_at_denying_issuer)
  have ok_c: "RefreshToken_func (token_endpoint locked_out) (files ?p) = (None, rotated_tokens)
      \<and> RegisterSite locked_out (registered ?p + 1) = (?answer, Some (External ''401''))"
    by (simp add: locked_out_def quiet_world_def new_process_def refresh_at_rotating_issuer)
  from registration_401_refresh_and_retry [OF fresh first_a code,
      where fs = rotated_tokens and again = example_site and config = example_config] ok_a
  have a: "register_site expired_session example_config zero_SiteSpecification ?p =
     (Return example_site,
      emit [Call_RegisterSite apiURL (SiteID_cfg example_config), Call_RefreshToken,
            Call_RegisterSite apiURL (SiteID_cfg example_config)]
        (?p\<lparr>files := rotated_tokens, registered := registered ?p + 2\<rparr>))"
    by blast
  from registration_401_refresh_and_retry [OF fresh first_b code,
      where fs = stored_tokens and refreshErr = TokenDenied and config = example_config] no_b
  have b: "register_site revoked_session example_config zero_SiteSpecification ?p =
     (Exit 1,
      emit [Call_RegisterSite apiURL (SiteID_cfg example_config), Call_RefreshToken,
            Fatal ''Failed to refresh token, try logging in again'']
        (?p\<lparr>files := stored_tokens, registered := registered ?p + 1\<rparr>))"
    by blast
  from registration_401_refresh_and_retry [OF fresh first_c code,
      where fs = rotated_tokens and again = ?answer and againErr = "External ''401''"
        and config = example_config] ok_c
  have c: "register_site locked_out example_config zero_SiteSpecification ?p =
     (Exit 1,
      emit [Call_RegisterSite apiURL (SiteID_cfg example_config), Call_RefreshToken,
            Call_RegisterSite apiURL (SiteID_cfg example_config),
            Fatal ''Failed to register site, try logging in again'']
        (?p\<lparr>files := rotated_tokens, registered := registered ?p + 2\<rparr>))"
    by blast
  show ?thesis
    unfolding a b c by (simp add: new_process_def example_config_def)
qed

subsection \<open>The session build\<close>

lemma generateListener_again:
  "publicKey p = Some key \<Longrightarrow> ResultCode siteSpecs \<noteq> 0 \<Longrightarrow>
   generateListener env config siteSpecs p =
     bind (dial_gateway env config siteSpecs (emit [Info ''Trying to reuse old hostname...''] p))
       (start_proxy env config siteSpecs)"
  by (simp add: generateListener_def load_identity_def register_site_def bind_def)

lemma generateListener_first:
  "publicKey p = None \<Longrightarrow> parsePublicKey env (IdentityFile config) = Inr key \<Longrightarrow>
   ResultCode siteSpecs0 = 0 \<Longrightarrow> RegisterSite env (registered p) = (siteSpecs, None) \<Longrightarrow>
   generateListener env config siteSpecs0 p =
     bind (dial_gateway env config siteSpecs
             (emit [Call_parsePublicKey (IdentityFile config),
                    Call_RegisterSite apiURL (SiteID_cfg config)]
                (p\<lparr>publicKey := Some key, registered := registered p + 1\<rparr>)))
       (start_proxy env config siteSpecs)"
  by (simp add: generateListener_def load_identity_def register_site_def bind_def
      call_RegisterSite_def Let_def)

lemma dial_gateway_at_once:
  "ssh_Dial env (dialed p) = None \<Longrightarrow>
   dial_gateway env config siteSpecs p =
     (Return (dialed p),
      emit [Call_ssh_Dial (GatewayEndpoint config) (ssh_user env siteSpecs)]
        (p\<lparr>dialed := dialed p + 1\<rparr>))"
  by (simp add: dial_gateway_def dial_loop_success_step sshRetries_def)

lemma bind_Return [simp]: "bind (Return x, p) f = f x p"
  by (simp add: bind_def)

lemma bind_Exit [simp]: "bind (Exit c, p) f = (Exit c, p)"
  by (simp add: bind_def)

lemma start_proxy_returns:
  "net_Listen env (listened p) = Inr port \<Longrightarrow> ssh_Listen env (remote_listened p) = None \<Longrightarrow>
   start_proxy env config siteSpecs c p =
     (Return (remote_listened p, \<lparr>Host = ''127.0.0.1'', Port = of_nat port\<rparr>, siteSpecs),
      emit (proxy_events env config siteSpecs c (listened p))
        (p\<lparr>listened := listened p + 1, remote_listened := remote_listened p + 1\<rparr>))"
  by (simp add: start_proxy_def Let_def proxy_events_def)



lemma quiet_first_build:
  "publicKey p = None \<Longrightarrow>
   generateListener quiet_world config zero_SiteSpecification p =
     (Return (remote_listened p,
              \<lparr>Host = ''127.0.0.1'', Port = of_nat (40000 + listened p)\<rparr>, example_site),
      emit ([Call_parsePublicKey (IdentityFile config),
             Call_RegisterSite apiURL (SiteID_cfg config),
             Call_ssh_Dial (GatewayEndpoint config) (ssh_user quiet_world example_site)]
            @ proxy_events quiet_world config example_site (dialed p) (listened p))
        (p\<lparr>publicKey := Some ''ssh-rsa AAAA'', registered := registered p + 1,
           dialed := dialed p + 1, listened := listened p + 1,
           remote_listened := remote_listened p + 1\<rparr>))"
proof -
  assume none: "publicKey p = None"
  have a: "parsePublicKey quiet_world (IdentityFile config) = Inr ''ssh-rsa AAAA''"
    and b: "ResultCode zero_SiteSpecification = 0"
    and c: "RegisterSite quiet_world (registered p) = (example_site, None)"
    and d: "\<And>n. ssh_Dial quiet_world n = None"
    and e: "\<And>n. net_Listen quiet_world n = Inr (40000 + n)"
    and f: "\<And>n. ssh_Listen quiet_world n = None"
    by (simp_all add: quiet_world_def zero_SiteSpecification_def)
  show ?thesis
    by (simp add: generateListener_first [OF none a b c] dial_gateway_at_once [OF d]
        start_proxy_returns [OF e f])
qed

lemma quiet_rebuild:
  "publicKey p = Some key \<Longrightarrow>
   generateListener quiet_world config example_site p =
     (Return (remote_listened p,
              \<lparr>Host = ''127.0.0.1'', Port = of_nat (40000 + listened p)\<rparr>, example_site),
      emit ([Info ''Trying to reuse old hostname...'',
             Call_ssh_Dial (GatewayEndpoint config) (ssh_user quiet_world example_site)]
            @ proxy_events quiet_world config example_site (dialed p) (listened p))
        (p\<lparr>dialed := dialed p + 1, listened := listened p + 1,
           remote_listened := remote_listened p + 1\<rparr>))"
proof -
  assume key: "publicKey p = Some key"
  have b: "ResultCode example_site \<noteq> 0"
    and d: "\<And>n. ssh_Dial quiet_world n = None"
    and e: "\<And>n. net_Listen quiet_world n = Inr (40000 + n)"
    and f: "\<And>n. ssh_Listen quiet_world n = None"
    by (simp_all add: quiet_world_def example_site_def)
  show ?thesis
    by (simp add: generateListener_again [OF key b] dial_gateway_at_once [OF d]
        start_proxy_returns [OF e f])
qed

lemma quiet_start:
  "Start quiet_world example_config stored_tokens rs =
     accept_loop quiet_world example_config 0 \<lparr>Host = ''127.0.0.1'', Port = 40000\<rparr>
       example_site rs
       (emit first_session
          ((new_process stored_tokens)\<lparr>publicKey := Some ''ssh-rsa AAAA'', registered := 1,
             dialed := 1, listened := 1, remote_listened := 1\<rparr>))"
proof -
  have none: "publicKey (emit printWelcomeMessage (new_process stored_tokens)) = None"
    by (simp add: new_process_def)
  show ?thesis
    unfolding Start_def quiet_first_build [OF none]
    by (simp add: new_process_def first_session_def)
qed




subsection \<open>The dials into the local proxy\<close>

lemma dial_targets_append [simp]:
  "dial_targets (es @ es') = dial_targets es @ dial_targets es'"
  by (induction es rule: dial_targets.induct) simp_all

lemma dial_targets_failed_attempt [simp]: "dial_targets (failed_attempt config user i) = []"
  by (simp add: failed_attempt_def)

lemma dial_targets_forwarding_lines [simp]: "dial_targets (forwarding_lines config siteSpecs) = []"
  by (simp add: forwarding_lines_def)

lemma dial_targets_proxy_events [simp]: "dial_targets (proxy_events env config siteSpecs c l) = []"
  by (simp add: proxy_events_def)

lemma dial_targets_printWelcomeMessage [simp]: "dial_targets printWelcomeMessage = []"
  by (simp add: printWelcomeMessage_def)

text \<open>No step of \<open>generateListener\<close> dials into the local proxy, and none before
  \<open>start_proxy\<close> opens a local listener.\<close>

lemma load_identity_quiet:
  "load_identity env config p = (r, p') \<Longrightarrow>
     dial_targets (trace p') = dial_targets (trace p) \<and> listened p' = listened p"
  by (auto simp: load_identity_def fatal_def split: if_splits sum.splits)

lemma register_site_quiet:
  "register_site env config siteSpecs p = (r, p') \<Longrightarrow>
     dial_targets (trace p') = dial_targets (trace p) \<and> listened p' = listened p"
  by (auto simp: register_site_def call_RegisterSite_def call_RefreshToken_def fatal_def
      split: if_splits prod.splits option.splits)

lemma dial_loop_quiet:
  "dial_loop env config user i p = (r, p') \<Longrightarrow>
     dial_targets (trace p') = dial_targets (trace p) \<and> listened p' = listened p"
proof (induction env config user i p rule: dial_loop.induct)
  case (1 env config user i p)
  show ?case
  proof (cases "i < sshRetries")
    case False
    with "1.prems" show ?thesis by (simp add: dial_loop_exhausted)
  next
    case True
    show ?thesis
    proof (cases "ssh_Dial env (dialed p)")
      case None
      with True "1.prems" show ?thesis by (auto simp: dial_loop_success_step)
    next
      case (Some err)
      let ?p = "emit [Call_ssh_Dial (GatewayEndpoint config) user] (p\<lparr>dialed := dialed p + 1\<rparr>)"
      have "dial_loop env config user (i + 1) (emit [Info (retry_notice i), Sleep 10] ?p) = (r, p')"
        using "1.prems" True Some
        by (simp add: dial_loop_failure_step failed_attempt_def)
      from "1.IH" [OF True refl Some this] show ?thesis by simp
    qed
  qed
qed

lemma dial_gateway_quiet:
  "dial_gateway env config siteSpecs p = (r, p') \<Longrightarrow>
     dial_targets (trace p') = dial_targets (trace p) \<and> listened p' = listened p"
  by (auto simp: dial_gateway_def fatal_def split: prod.splits option.splits
      dest: dial_loop_quiet)

lemma start_proxy_quiet:
  "start_proxy env config siteSpecs c p = (r, p') \<Longrightarrow>
     dial_targets (trace p') = dial_targets (trace p)"
  by (auto simp: start_proxy_def Let_def fatal_def split: sum.splits option.splits)

lemma start_proxy_endpoint:
  "start_proxy env config siteSpecs c p = (Return (l, ep, s), p') \<Longrightarrow>
     \<exists>port. net_Listen env (listened p) = Inr port
            \<and> ep = \<lparr>Host = ''127.0.0.1'', Port = of_nat port\<rparr>"
  by (auto simp: start_proxy_def Let_def fatal_def split: sum.splits option.splits)

lemma generateListener_quiet:
  assumes "generateListener env config siteSpecs p = (r, p')"
  shows "dial_targets (trace p') = dial_targets (trace p)"
proof -
  obtain r1 p1 where a: "load_identity env config p = (r1, p1)" by fastforce
  note qa = load_identity_quiet [OF a]
  show ?thesis
  proof (cases r1)
    case (Exit c)
    with assms a qa show ?thesis by (simp add: generateListener_def)
  next
    case r1: (Return u)
    obtain r2 p2 where b: "register_site env config siteSpecs p1 = (r2, p2)" by fastforce
    note qb = register_site_quiet [OF b]
    show ?thesis
    proof (cases r2)
      case (Exit c)
      with assms a b qa qb r1 show ?thesis by (simp add: generateListener_def)
    next
      case r2: (Return s)
      obtain r3 p3 where c: "dial_gateway env config s p2 = (r3, p3)" by fastforce
      note qc = dial_gateway_quiet [OF c]
      show ?thesis
      proof (cases r3)
        case (Exit c)
        with assms a b c qa qb qc r1 r2 show ?thesis
          by (simp add: generateListener_def)
      next
        case (Return client)
        with assms a b c r1 r2
        have "start_proxy env config s client p3 = (r, p')"
          by (simp add: generateListener_def)
        from start_proxy_quiet [OF this] qa qb qc show ?thesis by simp
      qed
    qed
  qed
qed

lemma generateListener_endpoint:
  assumes "generateListener env config siteSpecs p = (Return (l, ep, s), p')"
  shows "\<exists>port. net_Listen env (listened p) = Inr port
            \<and> ep = \<lparr>Host = ''127.0.0.1'', Port = of_nat port\<rparr>"
proof -
  obtain r1 p1 where a: "load_identity env config p = (r1, p1)" by fastforce
  note qa = load_identity_quiet [OF a]
  obtain u where r1: "r1 = Return u"
    using assms a by (cases r1) (simp_all add: generateListener_def)
  obtain r2 p2 where b: "register_site env config siteSpecs p1 = (r2, p2)" by fastforce
  note qb = register_site_quiet [OF b]
  obtain s2 where r2: "r2 = Return s2"
    using assms a b r1 by (cases r2) (simp_all add: generateListener_def)
  obtain r3 p3 where c: "dial_gateway env config s2 p2 = (r3, p3)" by fastforce
  note qc = dial_gateway_quiet [OF c]
  obtain client where r3: "r3 = Return client"
    using assms a b c r1 r2 by (cases r3) (simp_all add: generateListener_def)
  have "start_proxy env config s2 client p3 = (Return (l, ep, s), p')"
    using assms a b c r1 r2 r3 by (simp add: generateListener_def)
  from start_proxy_endpoint [OF this] qa qb qc show ?thesis by simp
qed

lemma accept_loop_dials:
  "set (dial_targets (trace (snd (accept_loop env config l ep s rs p))))
     \<subseteq> set (dial_targets (trace p)) \<union> {ep}"
proof (induction rs arbitrary: l p)
  case Nil
  show ?case by auto
next
  case (Cons a rs)
  show ?case
  proof (cases a)
    case EOF
    let ?p = "emit [Info ''Connection dropped, reconnecting...'', Close_Listener l] p"
    obtain r p1 where g: "generateListener env config s ?p = (r, p1)" by fastforce
    from generateListener_quiet [OF g]
    have q: "dial_targets (trace p1) = dial_targets (trace p)" by simp
    show ?thesis
    proof (cases r)
      case (Exit c)
      with EOF g q show ?thesis by auto
    next
      case (Return x)
      obtain l' ep' s' where x: "x = (l', ep', s')" by (cases x) auto
      from Cons.IH [of l' p1] EOF g q Return x show ?thesis by auto
    qed
  next
    case AcceptError
    from Cons.IH [of l "emit [Info ''Failed to accept connection over HTTPS''] p"] AcceptError
    show ?thesis by auto
  next
    case (Stream client)
    show ?thesis
    proof (cases "net_Dial env (local_dialed p)")
      case (Some err)
      with Stream show ?thesis by (auto simp: Let_def)
    next
      case None
      let ?p = "emit [Info ''Succeeded to accept connection over HTTPS'', Call_net_Dial ep,
                      Go_handleClient client (local_dialed p)]
                  (p\<lparr>successfulConnectionOccured := True,
                     local_dialed := local_dialed p + 1\<rparr>)"
      from Cons.IH [of l ?p] Stream None show ?thesis by (auto simp: Let_def)
    qed
  qed
qed

text \<open>
  C10. When the first session build returns the proxied endpoint \<open>ep\<close>, every dial into
  the local proxy in the trace of \<open>Start\<close>, after any results of \<open>Accept\<close> and so after
  any number of reconnects, has the target \<open>ep\<close>; and \<open>ep\<close> is the loopback address
  with the port that the first call of \<open>net.Listen\<close> was given.
\<close>

theorem local_dial_targets_first_endpoint:
  assumes "generateListener env config zero_SiteSpecification
             (emit printWelcomeMessage (new_process fs)) = (Return (l, ep, s), p)"
  shows "set (dial_targets (trace (snd (Start env config fs rs)))) \<subseteq> {ep}
         \<and> (\<exists>port. net_Listen env 0 = Inr port
                   \<and> ep = \<lparr>Host = ''127.0.0.1'', Port = of_nat port\<rparr>)"
proof
  from generateListener_quiet [OF assms]
  have "dial_targets (trace p) = []" by (simp add: new_process_def)
  with accept_loop_dials [of env config l ep s rs p] assms
  show "set (dial_targets (trace (snd (Start env config fs rs)))) \<subseteq> {ep}"
    by (simp add: Start_def)
next
  from generateListener_endpoint [OF assms]
  show "\<exists>port. net_Listen env 0 = Inr port \<and> ep = \<lparr>Host = ''127.0.0.1'', Port = of_nat port\<rparr>"
    by (simp add: new_process_def)
qed

lemma quiet_net_Dial: "net_Dial quiet_world n = None"
  by (simp add: quiet_world_def)

lemma quiet_dial_targets:
  "dial_targets (trace (snd (Start quiet_world example_config stored_tokens
                               [Stream 7, EOF, Stream 8])))
     = [\<lparr>Host = ''127.0.0.1'', Port = 40000\<rparr>, \<lparr>Host = ''127.0.0.1'', Port = 40000\<rparr>]"
  unfolding quiet_start
  by (simp add: quiet_rebuild [where key = "''ssh-rsa AAAA''"] quiet_net_Dial Let_def
      new_process_def first_session_def)

theorem local_dial_targets_first_endpoint_witness:
  "generateListener quiet_world example_config zero_SiteSpecification
       (emit printWelcomeMessage (new_process stored_tokens))
     = (Return (0, \<lparr>Host = ''127.0.0.1'', Port = 40000\<rparr>, example_site), first_process)
   \<and> set (dial_targets (trace (snd (Start quiet_world example_config stored_tokens
                                      [Stream 7, EOF, Stream 8]))))
       \<subseteq> {\<lparr>Host = ''127.0.0.1'', Port = 40000\<rparr>}
   \<and> length (dial_targets (trace (snd (Start quiet_world example_config stored_tokens
                                      [Stream 7, EOF, Stream 8])))) = 2
   \<and> net_Listen quiet_world 1 = Inr 40001"
proof -
  have none: "publicKey (emit printWelcomeMessage (new_process stored_tokens)) = None"
    by (simp add: new_process_def)
  have first: "generateListener quiet_world example_config zero_SiteSpecification
       (emit printWelcomeMessage (new_process stored_tokens))
     = (Return (0, \<lparr>Host = ''127.0.0.1'', Port = 40000\<rparr>, example_site), first_process)"
    unfolding quiet_first_build [OF none]
    by (simp add: new_process_def first_process_def first_session_def)
  from local_dial_targets_first_endpoint [OF first, of "[Stream 7, EOF, Stream 8]"] first
  show ?thesis
    by (simp add: quiet_dial_targets) (simp add: quiet_world_def)
qed

subsection \<open>Reconnecting\<close>












subsection \<open>The certificate manager and the lines for the user\<close>

lemma start_proxy_manager:
  "New_Manager (certManager env siteSpecs)
     \<in> set (trace (snd (start_proxy env config siteSpecs c p)))"
  by (simp add: start_proxy_def Let_def fatal_def split: sum.splits option.splits)

text \<open>
  C5, as the claim states it, fails: for the site \<open>abc123\<close> the host policy of the
  certificate manager that the session build makes holds \<open>abc.loophole.site\<close> as well.
\<close>

theorem whitelist_holds_second_host:
  "New_Manager (certManager quiet_world example_site)
     \<in> set (trace (snd (Start quiet_world example_config stored_tokens [])))
   \<and> SiteID example_site = ''abc123''
   \<and> ''abc.loophole.site'' \<in> set (HostPolicy (certManager quiet_world example_site))
   \<and> set (HostPolicy (certManager quiet_world example_site)) \<noteq> {''abc123.loophole.site''}"
  unfolding quiet_start
  by (simp add: first_session_def proxy_events_def certManager_def example_site_def)

text \<open>
  C5, amended. The certificate manager that the session build makes has the white list
  of the two hosts \<open><site>.loophole.site\<close> and \<open>abc.loophole.site\<close>, the e-mail
  address \<open><site>@loophole.main.dev\<close>, and the cache directory \<open>certs\<close> of the local
  storage.
\<close>

theorem certManager_configuration:
  "New_Manager (certManager env siteSpecs)
     \<in> set (trace (snd (start_proxy env config siteSpecs c p)))
   \<and> set (HostPolicy (certManager env siteSpecs))
       = {SiteID siteSpecs @ ''.loophole.site'', ''abc.loophole.site''}
   \<and> Email (certManager env siteSpecs) = SiteID siteSpecs @ ''@loophole.main.dev''
   \<and> Cache (certManager env siteSpecs) = GetLocalStorageDir env ''certs''"
  using start_proxy_manager [of env siteSpecs config c p]
  by (simp add: certManager_def)

text \<open>
  C8. With \<open>QR\<close> set and the site \<open>abc123\<close>, the forwarding line shows
  \<open>https://abc123.loophole.site\<close>, and the QR code holds
  \<open>http://abc123.loophole.site\<close>: the address of the QR code is not the one of the
  forwarding line.
\<close>

theorem qr_code_encodes_http_url:
  "QR example_config
   \<and> Print ''https://abc123.loophole.site''
       \<in> set (trace (snd (Start quiet_world example_config stored_tokens [])))
   \<and> QRCode ''http://abc123.loophole.site''
       \<in> set (trace (snd (Start quiet_world example_config stored_tokens [])))
   \<and> QRCode ''https://abc123.loophole.site''
       \<notin> set (trace (snd (Start quiet_world example_config stored_tokens [])))"
  unfolding quiet_start
  by (simp add: first_session_def proxy_events_def forwarding_lines_def example_site_def
      example_config_def printWelcomeMessage_def new_process_def)

text \<open>
  C3. The relay of the remote stream 7 and the local connection 0, where the copy from the
  stream to the local connection is the first to end, and ends without error: by the
  time \<open>handleClient\<close> returns, the stream has been closed and the local connection has
  not.
\<close>

theorem handleClient_leaves_local_open:
  "handleClient 7 0 ClientToLocal False
     = [Go_Copy 7 0, Go_Copy 0 7, Receive_chDone, Conn_Close 7]
   \<and> Conn_Close 0 \<notin> set (handleClient 7 0 ClientToLocal False)"
  by (simp add: handleClient_def)

end
